theory Spec2Isabelle
  imports Main "HOL-Library.Word" "HOL-Library.Signed_Division"
begin

unbundle bit_operations_syntax

section \<open>Data model\<close>

text \<open>
  The two source files are \<^verbatim>\<open>resolver.go\<close> (query assembly in \<^verbatim>\<open>createQuery\<close>, transport
  selection in \<^verbatim>\<open>newTransport\<close>) and the file of package \<^verbatim>\<open>output\<close> that declares
  \<^verbatim>\<open>Entry\<close> and \<^verbatim>\<open>Entry.LoadPTRs\<close>. Go strings are byte strings and are modelled as
  \<open>string\<close>; \<^verbatim>\<open>uint16\<close> and \<^verbatim>\<open>uint8\<close> are words; Go's \<^verbatim>\<open>int\<close> is \<open>int\<close>.
\<close>

type_synonym u8 = "8 word"
type_synonym u16 = "16 word"
type_synonym u32 = "32 word"

text \<open>\<^verbatim>\<open>net.IP\<close> is a byte slice; the nil slice is the empty list.\<close>

type_synonym IP = "u8 list"

text \<open>
  \<^verbatim>\<open>cli.Flags\<close>: the fields that the two source files read, with the types their uses
  fix (\<^verbatim>\<open>opts.ID\<close> is compared with \<^verbatim>\<open>-1\<close> and converted with \<^verbatim>\<open>uint16(...)\<close>;
  \<^verbatim>\<open>opts.UDPBuffer\<close> and \<^verbatim>\<open>opts.Class\<close> are stored in \<^verbatim>\<open>uint16\<close> fields).
\<close>

record Flags =
  Name :: string
  Class :: u16
  ID :: int
  AuthoritativeAnswer :: bool
  AuthenticData :: bool
  CheckingDisabled :: bool
  RecursionDesired :: bool
  RecursionAvailable :: bool
  Zero :: bool
  Truncated :: bool
  DNSSEC :: bool
  NSID :: bool
  Pad :: bool
  ClientSubnet :: string
  Cookie :: string
  UDPBuffer :: u16
  ReuseConn :: bool
  ODoHProxy :: string
  HTTPHeaders :: "string list"
  HTTPUserAgent :: string
  HTTPMethod :: string
  HTTP2 :: bool
  HTTP3 :: bool
  PMTUD :: bool
  DNSCryptTCP :: bool
  DNSCryptUDPSize :: int
  DNSCryptPublicKey :: string
  DNSCryptProvider :: string
  QUICALPNTokens :: "string list"
  QUICLengthPrefix :: bool
  Timeout :: int

text \<open>The message types of the DNS library, as far as the source touches them.\<close>

record Question =
  Name :: string
  Qtype :: u16
  Qclass :: u16

record RR_Header =
  Name :: string
  Rrtype :: u16
  Class :: u16
  Ttl :: u32
  Rdlength :: u16

record EDNS0_SUBNET =
  Code :: u16
  Family :: u16
  SourceNetmask :: u8
  SourceScope :: u8
  Address :: IP

text \<open>
  The EDNS0 options that \<^verbatim>\<open>createQuery\<close> builds: \<^verbatim>\<open>EDNS0_NSID{Code, Nsid}\<close>,
  \<^verbatim>\<open>EDNS0_PADDING{Padding}\<close>, \<^verbatim>\<open>EDNS0_SUBNET\<close> and \<^verbatim>\<open>EDNS0_COOKIE{Code, Cookie}\<close>.
\<close>

datatype EDNS0 =
    Opt_NSID u16 string
  | Opt_PADDING "u8 list"
  | Opt_SUBNET EDNS0_SUBNET
  | Opt_COOKIE u16 string

record OPT =
  Hdr :: RR_Header
  Option :: "EDNS0 list"

text \<open>
  A resource record is an interface value: its dynamic type is the constructor, and its
  header carries the \<^verbatim>\<open>Rrtype\<close> that \<^verbatim>\<open>LoadPTRs\<close> switches on. The two need not
  agree, which is why the type assertions of the source can panic.
\<close>

datatype RR =
    RR_A RR_Header IP
  | RR_AAAA RR_Header IP
  | RR_PTR RR_Header string
  | RR_OPT OPT
  | RR_other RR_Header "u8 list"

fun Header :: "RR \<Rightarrow> RR_Header" where
  "Header (RR_A h a) = h"
| "Header (RR_AAAA h a) = h"
| "Header (RR_PTR h p) = h"
| "Header (RR_OPT rr) = Hdr rr"
| "Header (RR_other h d) = h"

record Msg =
  Id :: u16
  Authoritative :: bool
  Truncated :: bool
  RecursionDesired :: bool
  RecursionAvailable :: bool
  Zero :: bool
  AuthenticatedData :: bool
  CheckingDisabled :: bool
  Question :: "Question list"
  Answer :: "RR list"
  Extra :: "RR list"

text \<open>The zero value \<^verbatim>\<open>dns.Msg{}\<close>.\<close>

definition dns_Msg :: Msg where
  "dns_Msg = \<lparr>Id = 0, Authoritative = False, Truncated = False, RecursionDesired = False,
     RecursionAvailable = False, Zero = False, AuthenticatedData = False,
     CheckingDisabled = False, Question = [], Answer = [], Extra = []\<rparr>"

text \<open>Constants of the DNS library.\<close>

definition TypeA :: u16 where "TypeA = 1"
definition TypePTR :: u16 where "TypePTR = 12"
definition TypeAAAA :: u16 where "TypeAAAA = 28"
definition TypeOPT :: u16 where "TypeOPT = 41"
definition ClassINET :: u16 where "ClassINET = 1"
definition EDNS0NSID :: u16 where "EDNS0NSID = 3"
definition EDNS0SUBNET :: u16 where "EDNS0SUBNET = 8"
definition EDNS0COOKIE :: u16 where "EDNS0COOKIE = 10"

text \<open>
  How the program stops other than by returning: \<^verbatim>\<open>log.Fatalf\<close> (the process exits with
  the message), a run-time panic (nil dereference, failed type assertion), or an error
  value returned to the caller. Of the log, the warnings (\<^verbatim>\<open>log.Warnf\<close>) are part of the
  model, as lists of their formatted messages; \<^verbatim>\<open>log.Debugf\<close> and \<^verbatim>\<open>log.Traceln\<close> only
  write diagnostics and are left out. The records of an answer section and the transport
  handed to \<^verbatim>\<open>LoadPTRs\<close> are taken to be non-nil; replies, the two maps of an entry and
  the TLS configuration may be nil.
\<close>

datatype failure =
    Fatal string
  | PanicNilDereference
  | PanicTypeAssertion
  | Error string

section \<open>Library functions\<close>

text \<open>
  The functions of the Go standard library and of the DNS library that the source calls
  and whose code is not part of the repository are parameters of the model:
  \<^item> \<open>Len\<close>: \<^verbatim>\<open>(*dns.Msg).Len\<close>, the length of the message in wire format;
  \<^item> \<open>ParseCIDR\<close>: \<^verbatim>\<open>net.ParseCIDR\<close> followed by \<^verbatim>\<open>ipNet.Mask.Size()\<close>; on success the
    parsed address and the number of leading ones of the mask (the prefix length);
  \<^item> \<open>Fqdn\<close>: \<^verbatim>\<open>dns.Fqdn\<close>;
  \<^item> \<open>IP_String\<close>: \<^verbatim>\<open>net.IP.String\<close>;
  \<^item> \<open>ReverseAddr\<close>: \<^verbatim>\<open>dns.ReverseAddr\<close>, \<open>Inl\<close> with the error's text when it returns
    an error.
  The random identifiers of \<^verbatim>\<open>dns.Id()\<close> are a sequence \<open>rnd\<close>: the \<open>n\<close>-th call
  returns \<open>rnd n\<close>.
\<close>

record lib =
  Len :: "Msg \<Rightarrow> int"
  ParseCIDR :: "string \<Rightarrow> (IP \<times> int) option"
  Fqdn :: "string \<Rightarrow> string"
  IP_String :: "IP \<Rightarrow> string"
  ReverseAddr :: "string \<Rightarrow> string + string"

text \<open>
  \<^verbatim>\<open>net.IP.To4\<close>: a 4-byte address is returned as it is, a 16-byte address with the
  IPv4-in-IPv6 prefix (ten zero bytes, then \<^verbatim>\<open>ff ff\<close>) gives its last four bytes, anything
  else gives nil. \<^verbatim>\<open>net.IPv4\<close> builds the 16-byte form.
\<close>

definition To4 :: "IP \<Rightarrow> IP option" where
  "To4 ip =
     (if length ip = 4 then Some ip
      else if length ip = 16 \<and> take 10 ip = replicate 10 0 \<and> ip ! 10 = 0xff \<and> ip ! 11 = 0xff
      then Some (drop 12 ip)
      else None)"

definition IPv4 :: "u8 \<Rightarrow> u8 \<Rightarrow> u8 \<Rightarrow> u8 \<Rightarrow> IP" where
  "IPv4 a b c d = replicate 10 0 @ [0xff, 0xff, a, b, c, d]"

text \<open>\<^verbatim>\<open>(*dns.OPT).SetDo()\<close> sets bit 15 of the TTL; \<^verbatim>\<open>(*dns.OPT).UDPSize()\<close> reads
  the class.\<close>

definition SetDo :: "OPT \<Rightarrow> OPT" where
  "SetDo rr = rr\<lparr>Hdr := (Hdr rr)\<lparr>Ttl := Ttl (Hdr rr) OR 0x8000\<rparr>\<rparr>"

definition OPT_UDPSize :: "OPT \<Rightarrow> u16" where
  "OPT_UDPSize rr = RR_Header.Class (Hdr rr)"

section \<open>createQuery\<close>

text \<open>Lines 22 to 35: the new message with its identifier and the header flags.\<close>

definition newReq :: "Flags \<Rightarrow> u16 \<Rightarrow> Msg" where
  "newReq opts rid =
     dns_Msg\<lparr>Id := (if ID opts \<noteq> - 1 then word_of_int (ID opts) else rid),
       Authoritative := AuthoritativeAnswer opts,
       AuthenticatedData := AuthenticData opts,
       CheckingDisabled := Flags.CheckingDisabled opts,
       RecursionDesired := Flags.RecursionDesired opts,
       RecursionAvailable := Flags.RecursionAvailable opts,
       Zero := Flags.Zero opts,
       Truncated := Flags.Truncated opts\<rparr>"

text \<open>
  Lines 59 to 68: the padding length from the measured length and the buffer size.
  Go's \<^verbatim>\<open>%\<close> truncates towards zero (\<open>smod\<close>).
\<close>

definition padLen :: "int \<Rightarrow> int \<Rightarrow> int" where
  "padLen msgLen udp =
     (let p = 128 - msgLen smod 128 in
      if msgLen + p > udp then (if udp - msgLen < 0 then 0 else udp - msgLen) else p)"

text \<open>Lines 56 to 73: the padding option. The length is measured on \<open>req\<close> as it is then.\<close>

definition addPadding :: "lib \<Rightarrow> Msg \<Rightarrow> OPT \<Rightarrow> OPT" where
  "addPadding lib req opt =
     opt\<lparr>Option := Option opt @
       [Opt_PADDING (replicate (nat (padLen (Len lib req) (uint (OPT_UDPSize opt)))) 0)]\<rparr>"

text \<open>Lines 75 to 94: the client subnet option; \<^verbatim>\<open>log.Fatalf\<close> when the string does not parse.\<close>

definition addSubnet :: "lib \<Rightarrow> Flags \<Rightarrow> OPT \<Rightarrow> failure + OPT" where
  "addSubnet lib opts opt =
     (case ParseCIDR lib (ClientSubnet opts) of
        None \<Rightarrow> Inl (Fatal (''parsing subnet '' @ ClientSubnet opts))
      | Some (ip, ones) \<Rightarrow>
          let ednsSubnet = \<lparr>Code = EDNS0SUBNET, Family = 1, SourceNetmask = word_of_int ones,
                              SourceScope = 0, Address = ip\<rparr>;
              ednsSubnet = (if To4 (Address ednsSubnet) = None then ednsSubnet\<lparr>Family := 2\<rparr>
                            else ednsSubnet)
          in Inr (opt\<lparr>Option := Option opt @ [Opt_SUBNET ednsSubnet]\<rparr>))"

text \<open>Lines 37 to 105: the OPT record, when one of the five conditions of line 37 holds.\<close>

definition wantOPT :: "Flags \<Rightarrow> bool" where
  "wantOPT opts =
     (DNSSEC opts \<or> NSID opts \<or> Pad opts \<or> ClientSubnet opts \<noteq> '''' \<or> Cookie opts \<noteq> '''')"

definition buildOPT :: "lib \<Rightarrow> Flags \<Rightarrow> Msg \<Rightarrow> failure + OPT" where
  "buildOPT lib opts req =
     (let opt = \<lparr>Hdr = \<lparr>RR_Header.Name = ''.'', Rrtype = TypeOPT, Class = UDPBuffer opts, Ttl = 0,
                          Rdlength = 0\<rparr>,
                 Option = []\<rparr>;
          opt = (if DNSSEC opts then SetDo opt else opt);
          opt = (if NSID opts then opt\<lparr>Option := Option opt @ [Opt_NSID EDNS0NSID '''']\<rparr>
                 else opt);
          opt = (if Pad opts then addPadding lib req opt else opt)
      in case (if ClientSubnet opts \<noteq> '''' then addSubnet lib opts opt else Inr opt) of
           Inl e \<Rightarrow> Inl e
         | Inr opt \<Rightarrow>
             Inr (if Cookie opts \<noteq> ''''
                  then opt\<lparr>Option := Option opt @ [Opt_COOKIE EDNS0COOKIE (Cookie opts)]\<rparr>
                  else opt))"

text \<open>Lines 107 to 111: the single question.\<close>

definition setQuestion :: "lib \<Rightarrow> Flags \<Rightarrow> u16 \<Rightarrow> Msg \<Rightarrow> Msg" where
  "setQuestion lib opts qType req =
     req\<lparr>Question := [\<lparr>Question.Name = Fqdn lib (Flags.Name opts), Qtype = qType,
                         Qclass = Flags.Class opts\<rparr>]\<rparr>"

text \<open>
  One iteration of the loop of lines 21 to 114, for the record type \<open>qType\<close>; \<open>rid\<close> is
  what \<^verbatim>\<open>dns.Id()\<close> returns if it is called.
\<close>

definition buildQuery :: "lib \<Rightarrow> Flags \<Rightarrow> u16 \<Rightarrow> u16 \<Rightarrow> failure + Msg" where
  "buildQuery lib opts rid qType =
     (let req = newReq opts rid in
      if wantOPT opts then
        (case buildOPT lib opts req of
           Inl e \<Rightarrow> Inl e
         | Inr opt \<Rightarrow> Inr (setQuestion lib opts qType (req\<lparr>Extra := Extra req @ [RR_OPT opt]\<rparr>)))
      else Inr (setQuestion lib opts qType req))"

text \<open>
  The loop. \<open>n\<close> counts the calls of \<^verbatim>\<open>dns.Id()\<close> made so far (one per iteration when
  \<^verbatim>\<open>opts.ID\<close> is \<^verbatim>\<open>-1\<close>, none otherwise); \<open>queries\<close> is the slice built so far.
\<close>

fun createQuery_loop ::
  "lib \<Rightarrow> (nat \<Rightarrow> u16) \<Rightarrow> Flags \<Rightarrow> nat \<Rightarrow> Msg list \<Rightarrow> u16 list \<Rightarrow> failure + Msg list" where
  "createQuery_loop lib rnd opts n queries [] = Inr queries"
| "createQuery_loop lib rnd opts n queries (qType # rrTypes) =
     (case buildQuery lib opts (rnd n) qType of
        Inl e \<Rightarrow> Inl e
      | Inr req \<Rightarrow>
          createQuery_loop lib rnd opts (if ID opts \<noteq> - 1 then n else Suc n)
            (queries @ [req]) rrTypes)"

definition createQuery :: "lib \<Rightarrow> (nat \<Rightarrow> u16) \<Rightarrow> Flags \<Rightarrow> u16 list \<Rightarrow> failure + Msg list" where
  "createQuery lib rnd opts rrTypes = createQuery_loop lib rnd opts 0 [] rrTypes"

section \<open>newTransport\<close>

text \<open>
  \<^verbatim>\<open>transport.Type\<close> with its six constants; \<open>TypeOther\<close> is any other value, printed as
  the string it carries. The transports are the structs of package \<^verbatim>\<open>transport\<close> with the
  fields that \<^verbatim>\<open>newTransport\<close> sets. Of \<^verbatim>\<open>tls.Config\<close> only \<^verbatim>\<open>NextProtos\<close> is touched;
  the pointer \<^verbatim>\<open>tlsConfig\<close> may be nil.
\<close>

datatype Type = TypePlain | TypeTCP | TypeTLS | TypeHTTP | TypeQUIC | TypeDNSCrypt | TypeOther string

record tls_Config =
  NextProtos :: "string list"

record Common =
  Server :: string
  ReuseConn :: bool

record ODoH =
  Common :: Common
  Proxy :: string
  TLSConfig :: "tls_Config option"

record HTTP =
  Common :: Common
  TLSConfig :: "tls_Config option"
  UserAgent :: string
  Method :: string
  HTTP2 :: bool
  HTTP3 :: bool
  NoPMTUd :: bool
  Headers :: "string \<rightharpoonup> string list"

record DNSCrypt =
  Common :: Common
  ServerStamp :: string
  TCP :: bool
  UDPSize :: int
  PublicKey :: string
  ProviderName :: string

record QUIC =
  Common :: Common
  TLSConfig :: "tls_Config option"
  PMTUD :: bool
  AddLengthPrefix :: bool

record TLS =
  Common :: Common
  TLSConfig :: "tls_Config option"

record Plain =
  Common :: Common
  PreferTCP :: bool
  UDPBuffer :: u16
  Timeout :: int

datatype Transport =
    T_ODoH ODoH
  | T_HTTP HTTP
  | T_DNSCrypt DNSCrypt
  | T_QUIC QUIC
  | T_TLS TLS
  | T_Plain Plain

text \<open>
  \<^verbatim>\<open>strings.SplitN(header, ":", 2)\<close>: the string itself when it holds no colon, otherwise
  what stands before the first colon and what stands after it.
\<close>

definition SplitN_colon :: "string \<Rightarrow> string list" where
  "SplitN_colon s =
     (if CHR '':'' \<in> set s
      then [takeWhile (\<lambda>c. c \<noteq> CHR '':'') s, tl (dropWhile (\<lambda>c. c \<noteq> CHR '':'') s)]
      else [s])"

text \<open>
  \<^verbatim>\<open>strings.TrimSpace\<close> removes the leading and the trailing white space, as
  \<^verbatim>\<open>unicode.IsSpace\<close> defines it, from a UTF-8 string. A white-space code point is
  recognised by its UTF-8 encoding: the six of ASCII, U+0085, U+00A0, U+1680, U+2000 to
  U+200A, U+2028, U+2029, U+202F, U+205F and U+3000. A byte that starts no such encoding
  ends the trimming, as an invalid or a non-space rune does in Go.
\<close>

definition spaceRunes :: "string list" where
  "spaceRunes =
     [[CHR 0x09], [CHR 0x0A], [CHR 0x0B], [CHR 0x0C], [CHR 0x0D], [CHR 0x20],
      [CHR 0xC2, CHR 0x85], [CHR 0xC2, CHR 0xA0], [CHR 0xE1, CHR 0x9A, CHR 0x80],
      [CHR 0xE2, CHR 0x80, CHR 0x80], [CHR 0xE2, CHR 0x80, CHR 0x81],
      [CHR 0xE2, CHR 0x80, CHR 0x82], [CHR 0xE2, CHR 0x80, CHR 0x83],
      [CHR 0xE2, CHR 0x80, CHR 0x84], [CHR 0xE2, CHR 0x80, CHR 0x85],
      [CHR 0xE2, CHR 0x80, CHR 0x86], [CHR 0xE2, CHR 0x80, CHR 0x87],
      [CHR 0xE2, CHR 0x80, CHR 0x88], [CHR 0xE2, CHR 0x80, CHR 0x89],
      [CHR 0xE2, CHR 0x80, CHR 0x8A], [CHR 0xE2, CHR 0x80, CHR 0xA8],
      [CHR 0xE2, CHR 0x80, CHR 0xA9], [CHR 0xE2, CHR 0x80, CHR 0xAF],
      [CHR 0xE2, CHR 0x81, CHR 0x9F], [CHR 0xE3, CHR 0x80, CHR 0x80]]"

text \<open>The first of the encodings \<open>ws\<close> that the string starts with, if any.\<close>

definition leadingRune :: "string list \<Rightarrow> string \<Rightarrow> string option" where
  "leadingRune ws s = find (\<lambda>w. w \<noteq> [] \<and> take (length w) s = w) ws"

function trimRunes :: "string list \<Rightarrow> string \<Rightarrow> string" where
  "trimRunes ws s =
     (case leadingRune ws s of None \<Rightarrow> s | Some w \<Rightarrow> trimRunes ws (drop (length w) s))"
  by pat_completeness auto
termination
proof (relation "measure (\<lambda>(ws, s). length s)")
  show "wf (measure (\<lambda>(ws, s). length s))" by simp
next
  fix ws :: "string list" and s w :: string
  assume "leadingRune ws s = Some w"
  then have "w \<noteq> []" and "take (length w) s = w"
    by (auto simp: leadingRune_def find_Some_iff)
  then have "s \<noteq> []" by auto
  with \<open>w \<noteq> []\<close> show "((ws, drop (length w) s), (ws, s)) \<in> measure (\<lambda>(ws, s). length s)"
    by simp
qed

definition TrimSpace :: "string \<Rightarrow> string" where
  "TrimSpace s = rev (trimRunes (map rev spaceRunes) (rev (trimRunes spaceRunes s)))"

text \<open>
  Lines 140 to 151: the loop over \<^verbatim>\<open>opts.HTTPHeaders\<close>. The state is the map built so
  far and the warnings logged so far; \<^verbatim>\<open>headers[name]\<close> of a missing key is the nil slice.
\<close>

fun parseHeaders ::
  "(string \<rightharpoonup> string list) \<Rightarrow> string list \<Rightarrow> string list \<Rightarrow>
     (string \<rightharpoonup> string list) \<times> string list" where
  "parseHeaders headers warnings [] = (headers, warnings)"
| "parseHeaders headers warnings (header # rest) =
     (let parts = SplitN_colon header in
      if length parts = 2 then
        (let name = TrimSpace (parts ! 0);
             value = TrimSpace (parts ! 1)
         in parseHeaders
              (headers(name \<mapsto> (case headers name of None \<Rightarrow> [] | Some vs \<Rightarrow> vs) @ [value]))
              warnings rest)
      else
        parseHeaders headers
          (warnings @ [''Invalid header format: '' @ header @ '' (expected 'Name: Value')''])
          rest)"

text \<open>
  \<^verbatim>\<open>newTransport\<close> reads the package variable \<^verbatim>\<open>opts\<close>, here its first argument. It
  returns the transport and the warnings it logged, or the error of the default branch.
  In the QUIC branch \<^verbatim>\<open>tlsConfig.Clone()\<close> of a nil pointer is nil, and the assignment to
  \<^verbatim>\<open>tc.NextProtos\<close> then panics.
\<close>

definition newTransport ::
  "Flags \<Rightarrow> string \<Rightarrow> Type \<Rightarrow> tls_Config option \<Rightarrow> failure + Transport \<times> string list" where
  "newTransport opts server transportType tlsConfig =
     (let common = \<lparr>Server = server, ReuseConn = Flags.ReuseConn opts\<rparr> in
      case transportType of
        TypeHTTP \<Rightarrow>
          if ODoHProxy opts \<noteq> '''' then
            Inr (T_ODoH \<lparr>ODoH.Common = common, Proxy = ODoHProxy opts, TLSConfig = tlsConfig\<rparr>, [])
          else
            (let (headers, warnings) = parseHeaders Map.empty [] (HTTPHeaders opts) in
             Inr (T_HTTP \<lparr>HTTP.Common = common, TLSConfig = tlsConfig,
                    UserAgent = HTTPUserAgent opts, Method = HTTPMethod opts,
                    HTTP2 = Flags.HTTP2 opts, HTTP3 = Flags.HTTP3 opts,
                    NoPMTUd = (\<not> Flags.PMTUD opts), Headers = headers\<rparr>, warnings))
      | TypeDNSCrypt \<Rightarrow>
          if take 7 server = ''sdns://'' then
            Inr (T_DNSCrypt \<lparr>DNSCrypt.Common = common, ServerStamp = server,
                   TCP = DNSCryptTCP opts, UDPSize = DNSCryptUDPSize opts,
                   PublicKey = '''', ProviderName = ''''\<rparr>, [])
          else
            Inr (T_DNSCrypt \<lparr>DNSCrypt.Common = common, ServerStamp = '''',
                   TCP = DNSCryptTCP opts, UDPSize = DNSCryptUDPSize opts,
                   PublicKey = DNSCryptPublicKey opts, ProviderName = DNSCryptProvider opts\<rparr>, [])
      | TypeQUIC \<Rightarrow>
          (case tlsConfig of
             None \<Rightarrow> Inl PanicNilDereference
           | Some tc \<Rightarrow>
               Inr (T_QUIC \<lparr>QUIC.Common = common,
                      TLSConfig = Some (tc\<lparr>NextProtos := QUICALPNTokens opts\<rparr>),
                      PMTUD = Flags.PMTUD opts, AddLengthPrefix = QUICLengthPrefix opts\<rparr>, []))
      | TypeTLS \<Rightarrow> Inr (T_TLS \<lparr>TLS.Common = common, TLSConfig = tlsConfig\<rparr>, [])
      | TypeTCP \<Rightarrow>
          Inr (T_Plain \<lparr>Plain.Common = common, PreferTCP = True,
                 UDPBuffer = Flags.UDPBuffer opts, Timeout = Flags.Timeout opts\<rparr>, [])
      | TypePlain \<Rightarrow>
          Inr (T_Plain \<lparr>Plain.Common = common, PreferTCP = False,
                 UDPBuffer = Flags.UDPBuffer opts, Timeout = Flags.Timeout opts\<rparr>, [])
      | TypeOther name \<Rightarrow> Inl (Error (''unknown transport protocol '' @ name)))"

section \<open>Entry.LoadPTRs\<close>

text \<open>
  \<^verbatim>\<open>Entry\<close>: a reply is a pointer and may be nil; the two maps may be nil.
\<close>

record Entry =
  Queries :: "Msg list"
  Replies :: "Msg option list"
  Server :: string
  Time :: int
  PTRs :: "(string \<rightharpoonup> string) option"
  existingRRs :: "(string \<rightharpoonup> bool) option"

text \<open>
  The transport is an interface with the method \<^verbatim>\<open>Exchange\<close>, which returns a reply
  pointer and an error. It is a parameter \<open>exch\<close>: from the transport's state and the
  query, the pair of reply and error (\<open>None\<close> for nil) and the transport's next state.
\<close>

type_synonym 't Exchange = "'t \<Rightarrow> Msg \<Rightarrow> (Msg option \<times> string option) \<times> 't"

text \<open>
  What \<^verbatim>\<open>LoadPTRs\<close> changes while it runs: the PTR map, the warnings logged, the
  transport's state, the number of calls of \<^verbatim>\<open>dns.Id()\<close>, and the queries handed to
  \<^verbatim>\<open>Exchange\<close> so far.
\<close>

record 't walk =
  cache :: "string \<rightharpoonup> string"
  warned :: "string list"
  txp :: 't
  calls :: nat
  sent :: "Msg list"

text \<open>\<^verbatim>\<open>(*dns.Msg).SetQuestion\<close>, with \<open>rid\<close> the identifier that \<^verbatim>\<open>dns.Id()\<close> returns.\<close>

definition SetQuestion :: "u16 \<Rightarrow> string \<Rightarrow> u16 \<Rightarrow> Msg \<Rightarrow> Msg" where
  "SetQuestion rid z t m =
     m\<lparr>Id := rid, RecursionDesired := True,
       Question := [\<lparr>Question.Name = z, Qtype = t, Qclass = ClassINET\<rparr>]\<rparr>"

text \<open>
  Lines 55 to 64: the switch on the header's type. \<open>Inr None\<close> is the \<^verbatim>\<open>continue\<close> of
  the default case; a type assertion on a record of another dynamic type panics.
\<close>

definition addressOf :: "lib \<Rightarrow> RR \<Rightarrow> failure + string option" where
  "addressOf lib rr =
     (if Rrtype (Header rr) = TypeA then
        (case rr of RR_A h a \<Rightarrow> Inr (Some (IP_String lib a)) | _ \<Rightarrow> Inl PanicTypeAssertion)
      else if Rrtype (Header rr) = TypeAAAA then
        (case rr of RR_AAAA h a \<Rightarrow> Inr (Some (IP_String lib a)) | _ \<Rightarrow> Inl PanicTypeAssertion)
      else Inr None)"

text \<open>Lines 81 to 84: storing the first answer of a reply, if there is one.\<close>

definition store :: "string \<Rightarrow> Msg option \<Rightarrow> 't walk \<Rightarrow> failure + 't walk" where
  "store ip resp st =
     (case resp of
        None \<Rightarrow> Inr st
      | Some r \<Rightarrow>
          (case Answer r of
             [] \<Rightarrow> Inr st
           | RR_PTR h p # rest \<Rightarrow> Inr (st\<lparr>cache := (cache st)(ip \<mapsto> p)\<rparr>)
           | _ # rest \<Rightarrow> Inl PanicTypeAssertion))"

text \<open>Lines 66 to 84: the lookup for the address \<open>ip\<close>.\<close>

definition lookup :: "lib \<Rightarrow> (nat \<Rightarrow> u16) \<Rightarrow> 't Exchange \<Rightarrow> 't walk \<Rightarrow> string \<Rightarrow> failure + 't walk" where
  "lookup lib rnd exch st ip =
     (case ReverseAddr lib ip of
        Inl err \<Rightarrow> Inl (Fatal (''error reversing PTR record: '' @ err))
      | Inr qname \<Rightarrow>
          (let msg = SetQuestion (rnd (calls st)) qname TypePTR dns_Msg in
           case exch (txp st) msg of
             ((resp, err), t) \<Rightarrow>
               (let st = st\<lparr>txp := t, calls := Suc (calls st), sent := sent st @ [msg]\<rparr> in
                case err of
                  Some e \<Rightarrow>
                    Inr (st\<lparr>warned := warned st @ [''error resolving PTR record: '' @ e]\<rparr>)
                | None \<Rightarrow> store ip resp st)))"

text \<open>The body of the inner loop (lines 54 to 85), for one answer record.\<close>

definition LoadPTRs_rr ::
  "lib \<Rightarrow> (nat \<Rightarrow> u16) \<Rightarrow> 't Exchange \<Rightarrow> 't walk \<Rightarrow> RR \<Rightarrow> failure + 't walk" where
  "LoadPTRs_rr lib rnd exch st rr =
     (case addressOf lib rr of
        Inl e \<Rightarrow> Inl e
      | Inr None \<Rightarrow> Inr st
      | Inr (Some ip) \<Rightarrow> lookup lib rnd exch st ip)"

text \<open>The inner loop over \<^verbatim>\<open>reply.Answer\<close> and the outer loop over \<^verbatim>\<open>e.Replies\<close>.\<close>

fun LoadPTRs_answers ::
  "lib \<Rightarrow> (nat \<Rightarrow> u16) \<Rightarrow> 't Exchange \<Rightarrow> 't walk \<Rightarrow> RR list \<Rightarrow> failure + 't walk" where
  "LoadPTRs_answers lib rnd exch st [] = Inr st"
| "LoadPTRs_answers lib rnd exch st (rr # rrs) =
     (case LoadPTRs_rr lib rnd exch st rr of
        Inl e \<Rightarrow> Inl e
      | Inr st' \<Rightarrow> LoadPTRs_answers lib rnd exch st' rrs)"

fun LoadPTRs_replies ::
  "lib \<Rightarrow> (nat \<Rightarrow> u16) \<Rightarrow> 't Exchange \<Rightarrow> 't walk \<Rightarrow> Msg option list \<Rightarrow> failure + 't walk" where
  "LoadPTRs_replies lib rnd exch st [] = Inr st"
| "LoadPTRs_replies lib rnd exch st (reply # replies) =
     (case reply of
        None \<Rightarrow> Inl PanicNilDereference
      | Some m \<Rightarrow>
          (case LoadPTRs_answers lib rnd exch st (Answer m) of
             Inl e \<Rightarrow> Inl e
           | Inr st' \<Rightarrow> LoadPTRs_replies lib rnd exch st' replies))"

text \<open>
  \<^verbatim>\<open>LoadPTRs\<close>: the map is created when it is nil (lines 49 to 51), then the loops run
  from the state \<open>start\<close>. The result is the entry with its new map, and the final state of
  the walk.
\<close>

definition start :: "'t \<Rightarrow> Entry \<Rightarrow> 't walk" where
  "start t e =
     \<lparr>cache = (case PTRs e of None \<Rightarrow> Map.empty | Some m \<Rightarrow> m), warned = [], txp = t,
      calls = 0, sent = []\<rparr>"

definition LoadPTRs ::
  "lib \<Rightarrow> (nat \<Rightarrow> u16) \<Rightarrow> 't Exchange \<Rightarrow> 't \<Rightarrow> Entry \<Rightarrow> failure + Entry \<times> 't walk" where
  "LoadPTRs lib rnd exch t e =
     (case LoadPTRs_replies lib rnd exch (start t e) (Replies e) of
        Inl f \<Rightarrow> Inl f
      | Inr st \<Rightarrow> Inr (e\<lparr>PTRs := Some (cache st)\<rparr>, st))"

section \<open>Derived forms and the words of the specification\<close>

text \<open>
  The definitions of this section are not part of the program. They name what the
  theorems below prove the program computes, what the specification's sentences say, and
  the concrete inputs of the worked examples.
\<close>

subsection \<open>createQuery in closed form\<close>

text \<open>The subnet option for a parsed address \<open>ip\<close> with prefix length \<open>ones\<close>.\<close>

definition subnetOpt :: "IP \<Rightarrow> int \<Rightarrow> EDNS0_SUBNET" where
  "subnetOpt ip ones =
     \<lparr>Code = EDNS0SUBNET, Family = (if To4 ip = None then 2 else 1),
      SourceNetmask = word_of_int ones, SourceScope = 0, Address = ip\<rparr>"

text \<open>The client subnet is given and does not parse.\<close>

definition subnetBad :: "lib \<Rightarrow> Flags \<Rightarrow> bool" where
  "subnetBad lib opts =
     (ClientSubnet opts \<noteq> '''' \<and> ParseCIDR lib (ClientSubnet opts) = None)"

definition optionsOf :: "lib \<Rightarrow> Flags \<Rightarrow> Msg \<Rightarrow> EDNS0 list" where
  "optionsOf lib opts req =
     (if NSID opts then [Opt_NSID EDNS0NSID ''''] else []) @
     (if Pad opts
      then [Opt_PADDING (replicate (nat (padLen (Len lib req) (uint (Flags.UDPBuffer opts)))) 0)]
      else []) @
     (if ClientSubnet opts \<noteq> '''' then
        (case ParseCIDR lib (ClientSubnet opts) of
           None \<Rightarrow> []
         | Some (ip, ones) \<Rightarrow> [Opt_SUBNET (subnetOpt ip ones)])
      else []) @
     (if Cookie opts \<noteq> '''' then [Opt_COOKIE EDNS0COOKIE (Cookie opts)] else [])"

definition optOf :: "lib \<Rightarrow> Flags \<Rightarrow> Msg \<Rightarrow> OPT" where
  "optOf lib opts req =
     \<lparr>Hdr = \<lparr>RR_Header.Name = ''.'', Rrtype = TypeOPT, Class = Flags.UDPBuffer opts,
              Ttl = (if DNSSEC opts then 0x8000 else 0), Rdlength = 0\<rparr>,
      Option = optionsOf lib opts req\<rparr>"

definition queryOf :: "lib \<Rightarrow> Flags \<Rightarrow> u16 \<Rightarrow> u16 \<Rightarrow> Msg" where
  "queryOf lib opts rid qType =
     \<lparr>Id = (if ID opts \<noteq> - 1 then word_of_int (ID opts) else rid),
      Authoritative = AuthoritativeAnswer opts,
      Truncated = Flags.Truncated opts,
      RecursionDesired = Flags.RecursionDesired opts,
      RecursionAvailable = Flags.RecursionAvailable opts,
      Zero = Flags.Zero opts,
      AuthenticatedData = AuthenticData opts,
      CheckingDisabled = Flags.CheckingDisabled opts,
      Question = [\<lparr>Question.Name = Fqdn lib (Flags.Name opts), Qtype = qType,
                    Qclass = Flags.Class opts\<rparr>],
      Answer = [],
      Extra = (if wantOPT opts then [RR_OPT (optOf lib opts (newReq opts rid))] else [])\<rparr>"

text \<open>The identifier of the query at position \<open>i\<close> of the batch.\<close>

definition idAt :: "(nat \<Rightarrow> u16) \<Rightarrow> Flags \<Rightarrow> nat \<Rightarrow> u16" where
  "idAt rnd opts i = (if ID opts \<noteq> - 1 then word_of_int (ID opts) else rnd i)"

text \<open>The padding and the subnet options of a query, and whether it carries an OPT record.\<close>

fun paddings :: "EDNS0 list \<Rightarrow> u8 list list" where
  "paddings [] = []"
| "paddings (Opt_PADDING p # os) = p # paddings os"
| "paddings (_ # os) = paddings os"

fun subnets :: "EDNS0 list \<Rightarrow> EDNS0_SUBNET list" where
  "subnets [] = []"
| "subnets (Opt_SUBNET s # os) = s # subnets os"
| "subnets (_ # os) = subnets os"

fun isOPT :: "RR \<Rightarrow> bool" where
  "isOPT (RR_OPT rr) = True"
| "isOPT _ = False"

definition hasOPT :: "Msg \<Rightarrow> bool" where
  "hasOPT q = list_ex isOPT (Extra q)"

fun optionsIn :: "RR list \<Rightarrow> EDNS0 list" where
  "optionsIn [] = []"
| "optionsIn (RR_OPT rr # rs) = Option rr @ optionsIn rs"
| "optionsIn (_ # rs) = optionsIn rs"

subsection \<open>The specification's words\<close>

text \<open>
  ``At least one EDNS0Options field is active (DNSSEC-OK, NSID, padding, client-subnet,
  cookie, advertised UDP buffer size)'': a flag that is set, a string that is not empty,
  a buffer size that is not zero.
\<close>

definition edns0_active :: "Flags \<Rightarrow> bool" where
  "edns0_active opts =
     (DNSSEC opts \<or> NSID opts \<or> Pad opts \<or> ClientSubnet opts \<noteq> '''' \<or> Cookie opts \<noteq> '''' \<or>
      Flags.UDPBuffer opts \<noteq> 0)"

text \<open>
  ``Split on the first colon, trim whitespace on both sides; malformed entries (missing
  colon) are dropped'': the name and the value of a header string, and the values that a
  list of header strings gives a name, in their order.
\<close>

definition headerPair :: "string \<Rightarrow> (string \<times> string) option" where
  "headerPair h =
     (if CHR '':'' \<in> set h
      then Some (TrimSpace (takeWhile (\<lambda>c. c \<noteq> CHR '':'') h),
                 TrimSpace (tl (dropWhile (\<lambda>c. c \<noteq> CHR '':'') h)))
      else None)"

definition headerValues :: "string list \<Rightarrow> string \<Rightarrow> string list" where
  "headerValues hs name = map snd (filter (\<lambda>p. fst p = name) (List.map_filter headerPair hs))"

definition headerWarnings :: "string list \<Rightarrow> string list" where
  "headerWarnings hs =
     map (\<lambda>h. ''Invalid header format: '' @ h @ '' (expected 'Name: Value')'')
       (filter (\<lambda>h. CHR '':'' \<notin> set h) hs)"

text \<open>
  The answer records that \<^verbatim>\<open>LoadPTRs\<close> looks up: those whose header type is A or AAAA.
  Such a record is \<open>reversible\<close> when its dynamic type matches and the reverse name of its
  address can be built.
\<close>

definition wantsPTR :: "RR \<Rightarrow> bool" where
  "wantsPTR rr = (Rrtype (Header rr) = TypeA \<or> Rrtype (Header rr) = TypeAAAA)"

definition addrRecords :: "Msg option list \<Rightarrow> RR list" where
  "addrRecords replies =
     concat (map (\<lambda>r. case r of None \<Rightarrow> [] | Some m \<Rightarrow> filter wantsPTR (Answer m)) replies)"

definition reversible :: "lib \<Rightarrow> RR \<Rightarrow> bool" where
  "reversible lib rr =
     (case addressOf lib rr of
        Inr (Some ip) \<Rightarrow> (case ReverseAddr lib ip of Inr qname \<Rightarrow> True | Inl err \<Rightarrow> False)
      | _ \<Rightarrow> False)"


text \<open>A transport whose every \<^verbatim>\<open>Exchange\<close> returns an error.\<close>

definition alwaysFails :: "'t Exchange \<Rightarrow> bool" where
  "alwaysFails exch = (\<forall>t m. snd (fst (exch t m)) \<noteq> None)"

subsection \<open>Inputs of the worked examples\<close>

text \<open>
  The number of octets of a message in uncompressed wire format (RFC 1035, section 4.1;
  RFC 6891, section 6.1.2), for names without escape sequences and option payloads given
  as an even number of hexadecimal digits: 12 for the header; a name's length plus one
  (one for the root) and four more for a question; name, ten octets and the data for a
  record; four octets and the payload for an option.
\<close>

definition domainNameLen :: "string \<Rightarrow> nat" where
  "domainNameLen s = (if s = '''' \<or> s = ''.'' then 1 else length s + 1)"

fun payloadLen :: "EDNS0 \<Rightarrow> nat" where
  "payloadLen (Opt_NSID c nsid) = length nsid div 2"
| "payloadLen (Opt_PADDING p) = length p"
| "payloadLen (Opt_SUBNET s) = 4 + (unat (SourceNetmask s) + 7) div 8"
| "payloadLen (Opt_COOKIE c cookie) = length cookie div 2"

fun recordLen :: "RR \<Rightarrow> nat" where
  "recordLen (RR_A h a) = domainNameLen (RR_Header.Name h) + 10 + (if a = [] then 0 else 4)"
| "recordLen (RR_AAAA h a) = domainNameLen (RR_Header.Name h) + 10 + (if a = [] then 0 else 16)"
| "recordLen (RR_PTR h p) = domainNameLen (RR_Header.Name h) + 10 + domainNameLen p"
| "recordLen (RR_OPT rr) =
     domainNameLen (RR_Header.Name (Hdr rr)) + 10 + sum_list (map (\<lambda>x. 4 + payloadLen x) (Option rr))"
| "recordLen (RR_other h d) = domainNameLen (RR_Header.Name h) + 10 + length d"

definition wireLen :: "Msg \<Rightarrow> nat" where
  "wireLen m =
     12 + sum_list (map (\<lambda>q. domainNameLen (Question.Name q) + 4) (Question m)) +
     sum_list (map recordLen (Answer m)) + sum_list (map recordLen (Extra m))"

text \<open>
  A library for the examples. Each function agrees with the Go function it stands for on
  the arguments that the examples pass to it: \<open>Len\<close> is the wire length above;
  \<open>ParseCIDR\<close> knows one IPv4 and one IPv6 prefix and rejects every other string, among
  them the string \<^verbatim>\<open>garbage\<close>, which holds no slash; \<open>Fqdn\<close> appends the missing final
  dot; \<open>IP_String\<close> and \<open>ReverseAddr\<close> know the address 192.0.2.1.
\<close>

definition example_ParseCIDR :: "string \<Rightarrow> (IP \<times> int) option" where
  "example_ParseCIDR s =
     (if s = ''203.0.113.0/24'' then Some (IPv4 203 0 113 0, 24)
      else if s = ''2001:db8::/32'' then Some ([0x20, 0x01, 0x0d, 0xb8] @ replicate 12 0, 32)
      else None)"

definition example_Fqdn :: "string \<Rightarrow> string" where
  "example_Fqdn s = (if s \<noteq> '''' \<and> last s = CHR ''.'' then s else s @ ''.'')"

definition example_IP_String :: "IP \<Rightarrow> string" where
  "example_IP_String ip = (if To4 ip = Some [192, 0, 2, 1] then ''192.0.2.1'' else ''<nil>'')"

definition example_ReverseAddr :: "string \<Rightarrow> string + string" where
  "example_ReverseAddr s =
     (if s = ''192.0.2.1'' then Inr ''1.2.0.192.in-addr.arpa.''
      else Inl (''dns: unrecognized address: '' @ s))"

definition example_lib :: lib where
  "example_lib =
     \<lparr>Len = (\<lambda>m. int (wireLen m)), ParseCIDR = example_ParseCIDR, Fqdn = example_Fqdn,
      IP_String = example_IP_String, ReverseAddr = example_ReverseAddr\<rparr>"

text \<open>Two sequences of random identifiers: one without repetition, one constant.\<close>

definition example_rnd :: "nat \<Rightarrow> u16" where
  "example_rnd n = word_of_nat (4660 + n)"

definition constant_rnd :: "nat \<Rightarrow> u16" where
  "constant_rnd n = 7"

text \<open>
  Options as the command line leaves them when nothing is asked for: a random identifier,
  recursion desired, no EDNS0 flag, the buffer size 1232.
\<close>

definition example_opts :: Flags where
  "example_opts =
     \<lparr>Flags.Name = ''example.com.'', Class = 1, ID = - 1, AuthoritativeAnswer = False,
      AuthenticData = False, CheckingDisabled = False, RecursionDesired = True,
      RecursionAvailable = False, Zero = False, Truncated = False, DNSSEC = False,
      NSID = False, Pad = False, ClientSubnet = '''', Cookie = '''', UDPBuffer = 1232,
      ReuseConn = False, ODoHProxy = '''', HTTPHeaders = [], HTTPUserAgent = '''',
      HTTPMethod = ''GET'', HTTP2 = False, HTTP3 = False, PMTUD = True, DNSCryptTCP = False,
      DNSCryptUDPSize = 0, DNSCryptPublicKey = '''', DNSCryptProvider = '''',
      QUICALPNTokens = [''doq''], QUICLengthPrefix = True, Timeout = 10\<rparr>"

definition pad_opts :: Flags where
  "pad_opts = example_opts\<lparr>Pad := True\<rparr>"

definition subnet_opts :: Flags where
  "subnet_opts = example_opts\<lparr>ClientSubnet := ''203.0.113.0/24''\<rparr>"

definition garbage_opts :: Flags where
  "garbage_opts = example_opts\<lparr>ClientSubnet := ''garbage''\<rparr>"

definition fixed_opts :: Flags where
  "fixed_opts = example_opts\<lparr>ID := 4242\<rparr>"

definition header_opts :: Flags where
  "header_opts = example_opts\<lparr>HTTPHeaders := [''X-Test:  value '', ''malformed'']\<rparr>"

text \<open>
  An A record for 192.0.2.1, a reply that holds it once and one that holds it twice, a
  PTR answer and a CNAME-like answer (a record of another type) to the reverse query.
\<close>

definition example_A :: RR where
  "example_A =
     RR_A \<lparr>RR_Header.Name = ''example.com.'', Rrtype = TypeA, Class = 1, Ttl = 300,
            Rdlength = 4\<rparr> [192, 0, 2, 1]"

definition reply_A :: Msg where
  "reply_A = dns_Msg\<lparr>Answer := [example_A]\<rparr>"

definition reply_AA :: Msg where
  "reply_AA = dns_Msg\<lparr>Answer := [example_A, example_A]\<rparr>"

text \<open>
  An A record without address, as the library decodes a record with empty data, and a
  reply that holds it: \<^verbatim>\<open>net.IP.String\<close> of the nil address is \<^verbatim>\<open><nil>\<close>, which has no
  reverse name.
\<close>

definition example_A_nil :: RR where
  "example_A_nil =
     RR_A \<lparr>RR_Header.Name = ''example.com.'', Rrtype = TypeA, Class = 1, Ttl = 300,
            Rdlength = 0\<rparr> []"

definition reply_A_nil :: Msg where
  "reply_A_nil = dns_Msg\<lparr>Answer := [example_A_nil]\<rparr>"

definition reply_PTR :: Msg where
  "reply_PTR =
     dns_Msg\<lparr>Answer := [RR_PTR \<lparr>RR_Header.Name = ''1.2.0.192.in-addr.arpa.'', Rrtype = TypePTR,
                                  Class = 1, Ttl = 300, Rdlength = 14\<rparr> ''host.example.'']\<rparr>"

definition reply_CNAME :: Msg where
  "reply_CNAME =
     dns_Msg\<lparr>Answer := [RR_other \<lparr>RR_Header.Name = ''1.2.0.192.in-addr.arpa.'', Rrtype = 5,
                                    Class = 1, Ttl = 300, Rdlength = 2\<rparr> [0xc0, 0x0c]]\<rparr>"

text \<open>
  Transports: one whose every exchange fails, one that answers every query with the PTR
  reply, one that answers with the reply of the other type, and one that answers its first
  query and fails from then on (its state counts the exchanges).
\<close>

definition failing :: "unit Exchange" where
  "failing t m = ((None, Some ''i/o timeout''), t)"

definition answering :: "unit Exchange" where
  "answering t m = ((Some reply_PTR, None), t)"

definition aliasing :: "unit Exchange" where
  "aliasing t m = ((Some reply_CNAME, None), t)"

definition flaky :: "nat Exchange" where
  "flaky n m = (if n = 0 then (Some reply_PTR, None) else (None, Some ''i/o timeout''), Suc n)"

definition example_Entry :: "Msg option list \<Rightarrow> Entry" where
  "example_Entry replies =
     \<lparr>Queries = [], Replies = replies, Server = ''192.0.2.53:53'', Time = 0, PTRs = None,
      existingRRs = None\<rparr>"

section \<open>createQuery: the closed form\<close>

lemma addSubnet_None:
  "ParseCIDR lib (ClientSubnet opts) = None \<Longrightarrow>
   addSubnet lib opts opt = Inl (Fatal (''parsing subnet '' @ ClientSubnet opts))"
  by (simp add: addSubnet_def)

lemma addSubnet_Some:
  "ParseCIDR lib (ClientSubnet opts) = Some (ip, ones) \<Longrightarrow>
   addSubnet lib opts opt = Inr (opt\<lparr>Option := Option opt @ [Opt_SUBNET (subnetOpt ip ones)]\<rparr>)"
  by (simp add: addSubnet_def Let_def subnetOpt_def)

lemma buildOPT_bad:
  "subnetBad lib opts \<Longrightarrow>
   buildOPT lib opts req = Inl (Fatal (''parsing subnet '' @ ClientSubnet opts))"
  by (simp add: buildOPT_def subnetBad_def addSubnet_None Let_def)

lemma UDPSize_Class: "OPT_UDPSize opt = RR_Header.Class (Hdr opt)"
  by (simp add: OPT_UDPSize_def)

lemma buildOPT_ok:
  assumes "\<not> subnetBad lib opts"
  shows "buildOPT lib opts req = Inr (optOf lib opts req)"
proof (cases "ClientSubnet opts = ''''")
  case True
  then show ?thesis
    by (simp add: buildOPT_def Let_def optOf_def optionsOf_def SetDo_def UDPSize_Class
        addPadding_def)
next
  case False
  with assms obtain ip ones where p: "ParseCIDR lib (ClientSubnet opts) = Some (ip, ones)"
    by (auto simp: subnetBad_def)
  show ?thesis
    using False
    by (simp add: buildOPT_def Let_def optOf_def optionsOf_def SetDo_def UDPSize_Class
        addPadding_def addSubnet_Some [OF p] p)
qed

lemma subnetBad_wantOPT: "subnetBad lib opts \<Longrightarrow> wantOPT opts"
  by (simp add: subnetBad_def wantOPT_def)

lemma buildQuery_bad:
  "subnetBad lib opts \<Longrightarrow>
   buildQuery lib opts rid qType = Inl (Fatal (''parsing subnet '' @ ClientSubnet opts))"
  by (simp add: buildQuery_def Let_def buildOPT_bad subnetBad_wantOPT)

lemma buildQuery_ok:
  "\<not> subnetBad lib opts \<Longrightarrow> buildQuery lib opts rid qType = Inr (queryOf lib opts rid qType)"
  by (simp add: buildQuery_def Let_def buildOPT_ok queryOf_def setQuestion_def newReq_def
      dns_Msg_def)

lemma queryOf_idAt: "queryOf lib opts (rnd n) t = queryOf lib opts (idAt rnd opts n) t"
  by (simp add: queryOf_def idAt_def newReq_def)

lemma idAt_shift:
  "idAt rnd opts ((if ID opts \<noteq> - 1 then n else Suc n) + j) = idAt rnd opts (n + Suc j)"
  by (simp add: idAt_def)

lemma zip_upt_Cons:
  "map (\<lambda>(i, t). f i t) (zip [0..<length (t # ts)] (t # ts)) =
     f 0 t # map (\<lambda>(i, t). f (Suc i) t) (zip [0..<length ts] ts)"
proof -
  have "[0..<length (t # ts)] = 0 # map Suc [0..<length ts]"
    by (simp add: upt_conv_Cons map_Suc_upt del: upt_Suc)
  thus ?thesis
    by (simp add: zip_map1 case_prod_beta del: upt_Suc)
qed

lemma createQuery_loop_ok:
  "\<not> subnetBad lib opts \<Longrightarrow>
   createQuery_loop lib rnd opts n queries rrTypes =
     Inr (queries @ map (\<lambda>(i, t). queryOf lib opts (idAt rnd opts (n + i)) t)
                       (zip [0..<length rrTypes] rrTypes))"
proof (induction rrTypes arbitrary: n queries)
  case Nil
  then show ?case by simp
next
  case (Cons t ts)
  show ?case
    unfolding zip_upt_Cons [of "\<lambda>i t. queryOf lib opts (idAt rnd opts (n + i)) t"]
    using Cons.prems Cons.IH [OF Cons.prems, of "if ID opts \<noteq> - 1 then n else Suc n"]
    by (simp add: buildQuery_ok [OF Cons.prems] idAt_shift queryOf_idAt [of _ _ rnd n])
qed

text \<open>The queries of a batch, when the client subnet is absent or parses.\<close>

lemma createQuery_ok:
  "\<not> subnetBad lib opts \<Longrightarrow>
   createQuery lib rnd opts rrTypes =
     Inr (map (\<lambda>(i, t). queryOf lib opts (idAt rnd opts i) t) (zip [0..<length rrTypes] rrTypes))"
  by (simp add: createQuery_def createQuery_loop_ok)

lemma createQuery_bad:
  "subnetBad lib opts \<Longrightarrow>
   createQuery lib rnd opts (qType # rrTypes) =
     Inl (Fatal (''parsing subnet '' @ ClientSubnet opts))"
  by (simp add: createQuery_def buildQuery_bad)

lemma createQuery_Nil: "createQuery lib rnd opts [] = Inr []"
  by (simp add: createQuery_def)

lemma batch_nth:
  "i < length ts \<Longrightarrow>
   map (\<lambda>(i, t). f i t) (zip [0..<length ts] ts) ! i = f i (ts ! i)"
  by simp

lemma createQuery_Inr_mem:
  assumes "createQuery lib rnd opts rrTypes = Inr qs" and "q \<in> set qs"
  shows "\<not> subnetBad lib opts \<and> (\<exists>i t. q = queryOf lib opts (idAt rnd opts i) t)"
proof -
  have ok: "\<not> subnetBad lib opts"
  proof
    assume bad: "subnetBad lib opts"
    show False
    proof (cases rrTypes)
      case Nil
      with assms show False by (simp add: createQuery_Nil)
    next
      case (Cons t ts)
      with assms bad show False by (simp add: createQuery_bad)
    qed
  qed
  from assms createQuery_ok [OF ok, of rnd rrTypes]
  have "q \<in> set (map (\<lambda>(i, t). queryOf lib opts (idAt rnd opts i) t)
                   (zip [0..<length rrTypes] rrTypes))"
    by simp
  then have "\<exists>i t. q = queryOf lib opts (idAt rnd opts i) t"
    by auto
  with ok show ?thesis by simp
qed

text \<open>What the examples' library returns.\<close>

lemma example_lib_simps:
  "Len example_lib = (\<lambda>m. int (wireLen m))"
  "ParseCIDR example_lib = example_ParseCIDR"
  "Fqdn example_lib = example_Fqdn"
  "IP_String example_lib = example_IP_String"
  "ReverseAddr example_lib = example_ReverseAddr"
  by (simp_all add: example_lib_def)

lemma example_subnetBad:
  "\<not> subnetBad example_lib example_opts"
  "\<not> subnetBad example_lib pad_opts"
  "\<not> subnetBad example_lib subnet_opts"
  "\<not> subnetBad example_lib fixed_opts"
  "subnetBad example_lib garbage_opts"
  by (simp_all add: subnetBad_def example_lib_simps example_ParseCIDR_def example_opts_def
      pad_opts_def subnet_opts_def fixed_opts_def garbage_opts_def)

section \<open>createQuery: the claims\<close>

text \<open>
  C5, as amended. Whenever the client subnet is absent or parses, \<open>createQuery\<close> returns
  exactly one query per requested record type, in the order of the request (a repeated
  type gives a repeated query): the question of the \<open>i\<close>-th query asks for the \<open>i\<close>-th
  type, and the seven header flags of every query are the corresponding fields of the
  options, unchanged.
\<close>

theorem createQuery_one_query_per_type:
  assumes "ClientSubnet opts = '''' \<or> ParseCIDR lib (ClientSubnet opts) \<noteq> None"
  shows "\<exists>qs. createQuery lib rnd opts rrTypes = Inr qs \<and> length qs = length rrTypes \<and>
    (\<forall>i<length rrTypes.
       Question (qs ! i) =
         [\<lparr>Question.Name = Fqdn lib (Flags.Name opts), Qtype = rrTypes ! i,
           Qclass = Flags.Class opts\<rparr>] \<and>
       Authoritative (qs ! i) = AuthoritativeAnswer opts \<and>
       AuthenticatedData (qs ! i) = AuthenticData opts \<and>
       Msg.CheckingDisabled (qs ! i) = Flags.CheckingDisabled opts \<and>
       Msg.RecursionDesired (qs ! i) = Flags.RecursionDesired opts \<and>
       Msg.RecursionAvailable (qs ! i) = Flags.RecursionAvailable opts \<and>
       Msg.Zero (qs ! i) = Flags.Zero opts \<and>
       Msg.Truncated (qs ! i) = Flags.Truncated opts)"
proof -
  from assms have ok: "\<not> subnetBad lib opts"
    by (auto simp: subnetBad_def)
  let ?qs = "map (\<lambda>(i, t). queryOf lib opts (idAt rnd opts i) t) (zip [0..<length rrTypes] rrTypes)"
  have "createQuery lib rnd opts rrTypes = Inr ?qs"
    by (rule createQuery_ok [OF ok])
  moreover have "length ?qs = length rrTypes"
    by simp
  moreover have "\<forall>i<length rrTypes. ?qs ! i = queryOf lib opts (idAt rnd opts i) (rrTypes ! i)"
    by simp
  ultimately show ?thesis
    by (intro exI [of _ ?qs]) (simp add: queryOf_def)
qed

theorem createQuery_one_query_per_type_witness:
  "ClientSubnet example_opts = '''' \<and>
   (\<exists>qs. createQuery example_lib example_rnd example_opts [TypeA, TypeA, TypeAAAA] = Inr qs \<and>
      length qs = 3 \<and>
      map Qtype (Question (qs ! 0)) = [TypeA] \<and>
      map Qtype (Question (qs ! 1)) = [TypeA] \<and>
      map Qtype (Question (qs ! 2)) = [TypeAAAA] \<and>
      Msg.RecursionDesired (qs ! 2) \<and> \<not> Msg.Zero (qs ! 2))"
proof -
  have h: "ClientSubnet example_opts = ''''"
    by (simp add: example_opts_def)
  then have h': "ClientSubnet example_opts = '''' \<or>
      ParseCIDR example_lib (ClientSubnet example_opts) \<noteq> None"
    by simp
  obtain qs where
    q: "createQuery example_lib example_rnd example_opts [TypeA, TypeA, TypeAAAA] = Inr qs"
      "length qs = length [TypeA, TypeA, TypeAAAA]"
    and a: "\<forall>i<length [TypeA, TypeA, TypeAAAA].
       Question (qs ! i) =
         [\<lparr>Question.Name = Fqdn example_lib (Flags.Name example_opts),
           Qtype = [TypeA, TypeA, TypeAAAA] ! i, Qclass = Flags.Class example_opts\<rparr>] \<and>
       Authoritative (qs ! i) = AuthoritativeAnswer example_opts \<and>
       AuthenticatedData (qs ! i) = AuthenticData example_opts \<and>
       Msg.CheckingDisabled (qs ! i) = Flags.CheckingDisabled example_opts \<and>
       Msg.RecursionDesired (qs ! i) = Flags.RecursionDesired example_opts \<and>
       Msg.RecursionAvailable (qs ! i) = Flags.RecursionAvailable example_opts \<and>
       Msg.Zero (qs ! i) = Flags.Zero example_opts \<and>
       Msg.Truncated (qs ! i) = Flags.Truncated example_opts"
    using createQuery_one_query_per_type [OF h', of example_rnd "[TypeA, TypeA, TypeAAAA]"]
    by blast
  from a have "map Qtype (Question (qs ! 0)) = [TypeA]"
    "map Qtype (Question (qs ! 1)) = [TypeA]"
    "map Qtype (Question (qs ! 2)) = [TypeAAAA]"
    "Msg.RecursionDesired (qs ! 2)" "\<not> Msg.Zero (qs ! 2)"
    by (simp_all add: example_opts_def)
  with h q show ?thesis
    by (intro conjI exI [of _ qs]) simp_all
qed

text \<open>
  C5 as it is stated fails: with a client subnet that does not parse, \<open>createQuery\<close>
  returns no query for the requested type; the process exits in \<^verbatim>\<open>log.Fatalf\<close>.
\<close>

theorem createQuery_one_query_per_type_counterexample:
  "createQuery example_lib example_rnd garbage_opts [TypeA] =
     Inl (Fatal ''parsing subnet garbage'')"
  using createQuery_bad [OF example_subnetBad(5), of example_rnd TypeA "[]"]
  by (simp add: garbage_opts_def)

text \<open>
  C2, as amended. Every query that \<open>createQuery\<close> returns carries an OPT record in its
  additional section if and only if one of the five conditions of line 37 holds: DNSSEC-OK,
  NSID, padding, a non-empty client subnet or a non-empty cookie. The record is then the
  only one of the section and advertises the UDP buffer size of the options; otherwise
  the section is empty. The advertised buffer size is not among the conditions.
\<close>

theorem createQuery_OPT_iff:
  assumes "createQuery lib rnd opts rrTypes = Inr qs" and "q \<in> set qs"
  shows "hasOPT q =
      (DNSSEC opts \<or> NSID opts \<or> Pad opts \<or> ClientSubnet opts \<noteq> '''' \<or> Cookie opts \<noteq> '''') \<and>
    (if hasOPT q
     then \<exists>opt. Extra q = [RR_OPT opt] \<and> OPT_UDPSize opt = Flags.UDPBuffer opts
     else Extra q = [])"
proof -
  from createQuery_Inr_mem [OF assms]
  obtain i t where q: "q = queryOf lib opts (idAt rnd opts i) t"
    by blast
  show ?thesis
    by (simp add: q queryOf_def hasOPT_def wantOPT_def optOf_def OPT_UDPSize_def)
qed

theorem createQuery_OPT_iff_witness:
  "(\<exists>q. createQuery example_lib example_rnd pad_opts [TypeA] = Inr [q] \<and> hasOPT q) \<and>
   (\<exists>q. createQuery example_lib example_rnd example_opts [TypeA] = Inr [q] \<and> Extra q = [])"
proof -
  let ?p = "queryOf example_lib pad_opts (idAt example_rnd pad_opts 0) TypeA"
  let ?e = "queryOf example_lib example_opts (idAt example_rnd example_opts 0) TypeA"
  have p: "createQuery example_lib example_rnd pad_opts [TypeA] = Inr [?p]"
    by (simp add: createQuery_ok [OF example_subnetBad(2)])
  have e: "createQuery example_lib example_rnd example_opts [TypeA] = Inr [?e]"
    by (simp add: createQuery_ok [OF example_subnetBad(1)])
  have fp: "Pad pad_opts"
    by (simp add: pad_opts_def)
  have fe: "\<not> DNSSEC example_opts" "\<not> NSID example_opts" "\<not> Pad example_opts"
    "ClientSubnet example_opts = ''''" "Cookie example_opts = ''''"
    by (simp_all add: example_opts_def)
  have "?p \<in> set [?p]" and "?e \<in> set [?e]"
    by simp_all
  from createQuery_OPT_iff [OF p this(1)] fp have "hasOPT ?p"
    by blast
  moreover from createQuery_OPT_iff [OF e \<open>?e \<in> set [?e]\<close>] fe have "Extra ?e = []"
    by (simp split: if_splits)
  ultimately show ?thesis
    using p e by blast
qed

text \<open>
  C2 as it is stated fails: with the advertised buffer size as the only active field, the
  query has no OPT record.
\<close>

theorem createQuery_OPT_iff_counterexample:
  "\<exists>q. createQuery example_lib example_rnd example_opts [TypeA] = Inr [q] \<and>
     edns0_active example_opts \<and> \<not> hasOPT q"
proof -
  let ?e = "queryOf example_lib example_opts (idAt example_rnd example_opts 0) TypeA"
  have "createQuery example_lib example_rnd example_opts [TypeA] = Inr [?e]"
    by (simp add: createQuery_ok [OF example_subnetBad(1)])
  moreover have "edns0_active example_opts"
    by (simp add: edns0_active_def example_opts_def)
  moreover have "\<not> hasOPT ?e"
    by (simp add: hasOPT_def queryOf_def wantOPT_def example_opts_def)
  ultimately show ?thesis
    by blast
qed

text \<open>
  C4, as amended. For a batch of two record types (and a client subnet that is absent or
  parses), \<open>createQuery\<close> returns two queries. When the caller's identifier is the
  sentinel \<open>-1\<close>, the first query carries the first value that \<^verbatim>\<open>dns.Id()\<close> returns and
  the second query the second value, so the two identifiers differ exactly when the two
  random values differ. Otherwise both carry the caller's identifier converted to 16 bits,
  which is the caller's value itself when that lies between 0 and 65535.
\<close>

theorem createQuery_batch_identifiers:
  assumes "ClientSubnet opts = '''' \<or> ParseCIDR lib (ClientSubnet opts) \<noteq> None"
  shows "\<exists>q1 q2. createQuery lib rnd opts [t1, t2] = Inr [q1, q2] \<and>
    (if ID opts = - 1
     then Id q1 = rnd 0 \<and> Id q2 = rnd 1 \<and> (Id q1 \<noteq> Id q2) = (rnd 0 \<noteq> rnd 1)
     else Id q1 = word_of_int (ID opts) \<and> Id q2 = word_of_int (ID opts) \<and>
          uint (Id q1) = ID opts mod 65536)"
proof -
  from assms have ok: "\<not> subnetBad lib opts"
    by (auto simp: subnetBad_def)
  have "[0..<length [t1, t2]] = [0, Suc 0]"
    by (simp add: upt_rec)
  then have "createQuery lib rnd opts [t1, t2] =
      Inr [queryOf lib opts (idAt rnd opts 0) t1, queryOf lib opts (idAt rnd opts 1) t2]"
    by (simp add: createQuery_ok [OF ok] del: upt_Suc)
  moreover have "uint (word_of_int (ID opts) :: u16) = ID opts mod 65536"
    by (simp add: uint_word_of_int)
  ultimately show ?thesis
    by (simp add: queryOf_def idAt_def)
qed

theorem createQuery_batch_identifiers_witness:
  "ClientSubnet example_opts = '''' \<and> ClientSubnet fixed_opts = '''' \<and>
   (\<exists>q1 q2. createQuery example_lib example_rnd example_opts [TypeA, TypeAAAA] = Inr [q1, q2] \<and>
      Id q1 = 4660 \<and> Id q2 = 4661) \<and>
   (\<exists>q1 q2. createQuery example_lib example_rnd fixed_opts [TypeA, TypeAAAA] = Inr [q1, q2] \<and>
      Id q1 = 4242 \<and> Id q2 = 4242)"
proof -
  have h1: "ClientSubnet example_opts = ''''" and h2: "ClientSubnet fixed_opts = ''''"
    by (simp_all add: example_opts_def fixed_opts_def)
  have i1: "ID example_opts = - 1" and i2: "ID fixed_opts = 4242"
    by (simp_all add: example_opts_def fixed_opts_def)
  have r: "example_rnd 0 = 4660" "example_rnd (Suc 0) = 4661"
    by (simp_all add: example_rnd_def)
  from createQuery_batch_identifiers [of example_opts example_lib example_rnd TypeA TypeAAAA] h1
  obtain q1 q2 where
    "createQuery example_lib example_rnd example_opts [TypeA, TypeAAAA] = Inr [q1, q2]"
    "Id q1 = example_rnd 0" "Id q2 = example_rnd 1"
    by (auto simp: i1)
  then have a: "\<exists>q1 q2.
      createQuery example_lib example_rnd example_opts [TypeA, TypeAAAA] = Inr [q1, q2] \<and>
      Id q1 = 4660 \<and> Id q2 = 4661"
    by (simp add: r)
  from createQuery_batch_identifiers [of fixed_opts example_lib example_rnd TypeA TypeAAAA] h2
  obtain q1 q2 where
    "createQuery example_lib example_rnd fixed_opts [TypeA, TypeAAAA] = Inr [q1, q2]"
    "Id q1 = word_of_int (ID fixed_opts)" "Id q2 = word_of_int (ID fixed_opts)"
    by (auto simp: i2)
  then have b: "\<exists>q1 q2.
      createQuery example_lib example_rnd fixed_opts [TypeA, TypeAAAA] = Inr [q1, q2] \<and>
      Id q1 = 4242 \<and> Id q2 = 4242"
    by (simp add: i2)
  from h1 h2 a b show ?thesis
    by blast
qed

text \<open>
  C4 as it is stated fails: nothing makes two random identifiers differ. When
  \<^verbatim>\<open>dns.Id()\<close> returns the same value twice, the two queries of the batch carry the same
  identifier although the caller's identifier is unset.
\<close>

theorem createQuery_batch_identifiers_counterexample:
  "\<exists>q1 q2. createQuery example_lib constant_rnd example_opts [TypeA, TypeAAAA] = Inr [q1, q2] \<and>
     ID example_opts = - 1 \<and> Id q1 = Id q2"
proof -
  have "[0..<length [TypeA, TypeAAAA]] = [0, Suc 0]"
    by (simp add: upt_rec)
  then have "createQuery example_lib constant_rnd example_opts [TypeA, TypeAAAA] =
      Inr [queryOf example_lib example_opts (idAt constant_rnd example_opts 0) TypeA,
           queryOf example_lib example_opts (idAt constant_rnd example_opts 1) TypeAAAA]"
    by (simp add: createQuery_ok [OF example_subnetBad(1)] del: upt_Suc)
  moreover have "ID example_opts = - 1"
    by (simp add: example_opts_def)
  ultimately show ?thesis
    by (simp add: queryOf_def idAt_def constant_rnd_def)
qed

text \<open>
  C3, as amended. For every non-empty client-subnet string and at least one requested
  record type, \<open>createQuery\<close> parses the string: when it does not parse, the process
  exits in \<^verbatim>\<open>log.Fatalf\<close> with the message \<^verbatim>\<open>parsing subnet\<close> and the string; when it
  parses to the address \<open>ip\<close> with prefix length \<open>ones\<close>, every query carries exactly one
  subnet option, with family 1 (IPv4) unless \<^verbatim>\<open>To4\<close> of the address is nil (then family 2,
  IPv6), the source netmask \<open>ones\<close> (converted to 8 bits, which keeps a prefix length), the
  scope netmask 0 and the parsed address.
\<close>

theorem createQuery_client_subnet:
  assumes "ClientSubnet opts \<noteq> ''''" and "rrTypes \<noteq> []"
  shows "case ParseCIDR lib (ClientSubnet opts) of
      None \<Rightarrow>
        createQuery lib rnd opts rrTypes = Inl (Fatal (''parsing subnet '' @ ClientSubnet opts))
    | Some (ip, ones) \<Rightarrow>
        (\<exists>qs. createQuery lib rnd opts rrTypes = Inr qs \<and> length qs = length rrTypes \<and>
           (\<forall>q\<in>set qs.
              subnets (optionsIn (Extra q)) =
                [\<lparr>Code = EDNS0SUBNET, Family = (if To4 ip = None then 2 else 1),
                  SourceNetmask = word_of_int ones, SourceScope = 0, Address = ip\<rparr>] \<and>
              map (\<lambda>s. uint (SourceNetmask s)) (subnets (optionsIn (Extra q))) =
                [ones mod 256]))"
proof (cases "ParseCIDR lib (ClientSubnet opts)")
  case None
  with assms(1) have bad: "subnetBad lib opts"
    by (simp add: subnetBad_def)
  from assms(2) obtain t ts where "rrTypes = t # ts"
    by (cases rrTypes) auto
  with createQuery_bad [OF bad, of rnd t ts] None show ?thesis
    by simp
next
  case (Some p)
  obtain ip ones where p: "p = (ip, ones)"
    by (cases p)
  from Some have ok: "\<not> subnetBad lib opts"
    by (simp add: subnetBad_def)
  let ?qs = "map (\<lambda>(i, t). queryOf lib opts (idAt rnd opts i) t) (zip [0..<length rrTypes] rrTypes)"
  let ?s = "\<lparr>Code = EDNS0SUBNET, Family = (if To4 ip = None then 2 else 1),
      SourceNetmask = word_of_int ones, SourceScope = 0, Address = ip\<rparr>"
  have s: "subnetOpt ip ones = ?s"
    by (simp add: subnetOpt_def)
  have sub: "subnets (optionsOf lib opts req) = [?s]" for req
    using assms(1) Some p by (simp add: optionsOf_def s)
  have one: "subnets (optionsIn (Extra q)) = [?s]" if "q \<in> set ?qs" for q
    using that assms(1) by (auto simp: queryOf_def wantOPT_def optOf_def sub)
  have u: "map (\<lambda>s. uint (SourceNetmask s)) [?s] = [ones mod 256]"
    by (simp add: uint_word_of_int)
  show ?thesis
    unfolding Some p option.case prod.case
  proof (intro exI [of _ ?qs] conjI ballI)
    show "createQuery lib rnd opts rrTypes = Inr ?qs"
      by (rule createQuery_ok [OF ok])
    show "length ?qs = length rrTypes"
      by simp
    show "subnets (optionsIn (Extra q)) = [?s]" if "q \<in> set ?qs" for q
      by (rule one [OF that])
    show "map (\<lambda>s. uint (SourceNetmask s)) (subnets (optionsIn (Extra q))) = [ones mod 256]"
      if "q \<in> set ?qs" for q
      unfolding one [OF that] by (rule u)
  qed
qed

text \<open>
  The example of the specification, \<^verbatim>\<open>203.0.113.0/24\<close>, gives family 1, source netmask 24
  and scope netmask 0; a string that is no CIDR stops the program.
\<close>

theorem createQuery_client_subnet_witness:
  "ClientSubnet subnet_opts \<noteq> '''' \<and> ClientSubnet garbage_opts \<noteq> '''' \<and> [TypeA] \<noteq> [] \<and>
   (\<exists>q. createQuery example_lib example_rnd subnet_opts [TypeA] = Inr [q] \<and>
      subnets (optionsIn (Extra q)) =
        [\<lparr>Code = 8, Family = 1, SourceNetmask = 24, SourceScope = 0,
          Address = IPv4 203 0 113 0\<rparr>]) \<and>
   createQuery example_lib example_rnd garbage_opts [TypeA] =
     Inl (Fatal ''parsing subnet garbage'')"
proof -
  have s: "ClientSubnet subnet_opts = ''203.0.113.0/24''"
    and g: "ClientSubnet garbage_opts = ''garbage''"
    by (simp_all add: subnet_opts_def garbage_opts_def)
  have ps: "ParseCIDR example_lib (ClientSubnet subnet_opts) = Some (IPv4 203 0 113 0, 24)"
    and pg: "ParseCIDR example_lib (ClientSubnet garbage_opts) = None"
    by (simp_all add: s g example_lib_simps example_ParseCIDR_def)
  have ne: "[TypeA] \<noteq> []" "ClientSubnet subnet_opts \<noteq> ''''" "ClientSubnet garbage_opts \<noteq> ''''"
    by (simp_all add: s g)
  have v4: "To4 (IPv4 203 0 113 0) \<noteq> None"
    by (simp add: To4_def IPv4_def nth_append)
  from createQuery_client_subnet [OF ne(2) ne(1), of example_lib example_rnd]
  obtain qs where qs: "createQuery example_lib example_rnd subnet_opts [TypeA] = Inr qs"
    "length qs = 1"
    "\<forall>q\<in>set qs. subnets (optionsIn (Extra q)) =
       [\<lparr>Code = EDNS0SUBNET, Family = (if To4 (IPv4 203 0 113 0) = None then 2 else 1),
         SourceNetmask = word_of_int 24, SourceScope = 0, Address = IPv4 203 0 113 0\<rparr>]"
    unfolding ps by auto
  from qs(2) obtain q where q: "qs = [q]"
    by (cases qs) auto
  with qs(3) v4 have "subnets (optionsIn (Extra q)) =
      [\<lparr>Code = 8, Family = 1, SourceNetmask = 24, SourceScope = 0,
        Address = IPv4 203 0 113 0\<rparr>]"
    by (simp add: EDNS0SUBNET_def)
  with qs(1) q have a: "\<exists>q. createQuery example_lib example_rnd subnet_opts [TypeA] = Inr [q] \<and>
      subnets (optionsIn (Extra q)) =
        [\<lparr>Code = 8, Family = 1, SourceNetmask = 24, SourceScope = 0,
          Address = IPv4 203 0 113 0\<rparr>]"
    by blast
  from createQuery_client_subnet [OF ne(3) ne(1), of example_lib example_rnd]
  have b: "createQuery example_lib example_rnd garbage_opts [TypeA] =
      Inl (Fatal ''parsing subnet garbage'')"
    unfolding pg by (simp add: g)
  from ne a b show ?thesis
    by blast
qed

text \<open>
  C3 as it is stated fails: when no record type is requested, the loop body never runs, the
  client-subnet string is never parsed, and \<open>createQuery\<close> returns the empty batch although
  the string is not a CIDR.
\<close>

theorem createQuery_client_subnet_counterexample:
  "ClientSubnet garbage_opts \<noteq> '''' \<and>
   ParseCIDR example_lib (ClientSubnet garbage_opts) = None \<and>
   createQuery example_lib example_rnd garbage_opts [] = Inr []"
  by (simp add: createQuery_Nil garbage_opts_def example_lib_simps example_ParseCIDR_def)

text \<open>
  C1 fails on the code. The padding length is computed from \<^verbatim>\<open>req.Len()\<close> at line 59,
  when the request holds its identifier and flags only: the question is set at line 107
  and the OPT record is appended at line 104. For a padded query for \<^verbatim>\<open>example.com.\<close>
  with buffer size 1232 the measured length is 12, the padding 116 octets, and the query
  160 octets long in wire format: not a multiple of 128, and far below the buffer size,
  so that no truncation is forced.
\<close>

theorem createQuery_padding_failing_input:
  "\<exists>q opt. createQuery example_lib example_rnd pad_opts [TypeA] = Inr [q] \<and>
     Extra q = [RR_OPT opt] \<and> Option opt = [Opt_PADDING (replicate 116 0)] \<and>
     Len example_lib (newReq pad_opts (example_rnd 0)) = 12 \<and>
     wireLen q = 160 \<and> \<not> 128 dvd wireLen q \<and>
     int (wireLen q) \<le> uint (Flags.UDPBuffer pad_opts) \<and>
     uint (Flags.UDPBuffer pad_opts) = 1232"
proof -
  let ?q = "queryOf example_lib pad_opts (idAt example_rnd pad_opts 0) TypeA"
  let ?opt = "optOf example_lib pad_opts (newReq pad_opts (idAt example_rnd pad_opts 0))"
  have c: "createQuery example_lib example_rnd pad_opts [TypeA] = Inr [?q]"
    by (simp add: createQuery_ok [OF example_subnetBad(2)])
  have f: "Pad pad_opts" "\<not> NSID pad_opts" "\<not> DNSSEC pad_opts" "ClientSubnet pad_opts = ''''"
    "Cookie pad_opts = ''''" "Flags.UDPBuffer pad_opts = 1232" "ID pad_opts = - 1"
    "Flags.Name pad_opts = ''example.com.''"
    by (simp_all add: pad_opts_def example_opts_def)
  have l: "wireLen (newReq pad_opts rid) = 12" for rid
    by (simp add: wireLen_def newReq_def dns_Msg_def)
  have p: "padLen 12 1232 = 116"
    by (simp add: padLen_def signed_modulo_int_def)
  have o: "Option ?opt = [Opt_PADDING (replicate 116 0)]"
    by (simp add: optOf_def optionsOf_def f example_lib_simps l p)
  have e: "Extra ?q = [RR_OPT ?opt]"
    by (simp add: queryOf_def wantOPT_def f)
  have n: "Hdr ?opt = \<lparr>RR_Header.Name = ''.'', Rrtype = TypeOPT, Class = 1232, Ttl = 0, Rdlength = 0\<rparr>"
    by (simp add: optOf_def f)
  have w: "wireLen ?q = 160"
    unfolding wireLen_def e by (simp add: queryOf_def o n f example_lib_simps example_Fqdn_def domainNameLen_def)
  have i: "idAt example_rnd pad_opts 0 = example_rnd 0"
    by (simp add: idAt_def f)
  show ?thesis
    using c e o w by (intro exI [of _ ?q] exI [of _ ?opt]) (simp add: f l example_lib_simps)
qed

section \<open>newTransport: the header strings\<close>

lemma SplitN_colon_length:
  "length (SplitN_colon h) = (if CHR '':'' \<in> set h then 2 else 1)"
  by (simp add: SplitN_colon_def)

lemma headerValues_Cons:
  "headerValues (h # hs) name =
     (case headerPair h of
        None \<Rightarrow> headerValues hs name
      | Some (n, v) \<Rightarrow> (if n = name then v # headerValues hs name else headerValues hs name))"
  by (simp add: headerValues_def map_filter_simps split: option.splits)

lemma headerWarnings_Cons:
  "headerWarnings (h # hs) =
     (if CHR '':'' \<in> set h then headerWarnings hs
      else (''Invalid header format: '' @ h @ '' (expected 'Name: Value')'') # headerWarnings hs)"
  by (simp add: headerWarnings_def)

text \<open>What the loop over the header strings computes, from any map and any log.\<close>

lemma parseHeaders_eq:
  "parseHeaders m w hs =
     (\<lambda>name. if headerValues hs name = [] then m name
              else Some ((case m name of None \<Rightarrow> [] | Some vs \<Rightarrow> vs) @ headerValues hs name),
      w @ headerWarnings hs)"
proof (induction hs arbitrary: m w)
  case Nil
  show ?case
    by (simp add: headerValues_def headerWarnings_def map_filter_simps)
next
  case (Cons h hs)
  show ?case
  proof (cases "CHR '':'' \<in> set h")
    case False
    then have "headerPair h = None"
      by (simp add: headerPair_def)
    then have v: "headerValues (h # hs) = headerValues hs"
      by (simp add: fun_eq_iff headerValues_Cons)
    from False show ?thesis
      unfolding v by (simp add: Cons.IH SplitN_colon_length headerWarnings_Cons)
  next
    case True
    define n where "n = TrimSpace (takeWhile (\<lambda>c. c \<noteq> CHR '':'') h)"
    define v where "v = TrimSpace (tl (dropWhile (\<lambda>c. c \<noteq> CHR '':'') h))"
    from True have p: "headerPair h = Some (n, v)"
      by (simp add: headerPair_def n_def v_def)
    from True have s: "SplitN_colon h ! 0 = takeWhile (\<lambda>c. c \<noteq> CHR '':'') h"
      "SplitN_colon h ! Suc 0 = tl (dropWhile (\<lambda>c. c \<noteq> CHR '':'') h)"
      by (simp_all add: SplitN_colon_def)
    have step: "parseHeaders m w (h # hs) =
        parseHeaders (m(n \<mapsto> (case m n of None \<Rightarrow> [] | Some vs \<Rightarrow> vs) @ [v])) w hs"
      using True by (simp add: SplitN_colon_length s n_def v_def Let_def)
    show ?thesis
      unfolding step Cons.IH
      by (auto simp: headerValues_Cons p headerWarnings_Cons True fun_eq_iff split: option.splits)
  qed
qed

lemma TrimSpace_examples:
  "TrimSpace ''X-Test'' = ''X-Test''"
  "TrimSpace ''  value '' = ''value''"
  by code_simp+

text \<open>
  C6. In the HTTP(S) branch (the transport type is HTTP and no ODoH proxy is set),
  \<open>newTransport\<close> never fails. The header map of the transport it returns gives every
  name the values of the header strings with that name, in their order, where a header
  string with a colon has as its name what stands before the first colon and as its value
  what stands after it, both trimmed of white space; a header string without a colon adds
  nothing to the map and one warning to the log. So \<^verbatim>\<open>X-Test:  value \<close> has the name
  \<^verbatim>\<open>X-Test\<close> and the value \<^verbatim>\<open>value\<close>, and \<^verbatim>\<open>malformed\<close> is dropped.
\<close>

theorem newTransport_HTTP_headers:
  assumes "ODoHProxy opts = ''''"
  shows "\<exists>ts. newTransport opts server TypeHTTP tlsConfig =
        Inr (T_HTTP ts, headerWarnings (HTTPHeaders opts)) \<and>
      (\<forall>name. Headers ts name =
         (if headerValues (HTTPHeaders opts) name = [] then None
          else Some (headerValues (HTTPHeaders opts) name))) \<and>
      headerPair ''X-Test:  value '' = Some (''X-Test'', ''value'') \<and>
      headerPair ''malformed'' = None"
proof -
  have "headerPair ''X-Test:  value '' = Some (''X-Test'', ''value'')"
    by (simp add: headerPair_def TrimSpace_examples)
  moreover have "headerPair ''malformed'' = None"
    by (simp add: headerPair_def)
  ultimately show ?thesis
    using assms by (simp add: newTransport_def parseHeaders_eq)
qed

theorem newTransport_HTTP_headers_witness:
  "ODoHProxy header_opts = '''' \<and>
   (\<exists>ts. newTransport header_opts ''https://dns.example/dns-query'' TypeHTTP None =
        Inr (T_HTTP ts, [''Invalid header format: malformed (expected 'Name: Value')'']) \<and>
      Headers ts ''X-Test'' = Some [''value''] \<and> Headers ts ''malformed'' = None)"
proof -
  have h: "ODoHProxy header_opts = ''''"
    by (simp add: header_opts_def example_opts_def)
  have l: "HTTPHeaders header_opts = [''X-Test:  value '', ''malformed'']"
    by (simp add: header_opts_def)
  from newTransport_HTTP_headers [OF h, of "''https://dns.example/dns-query''" None]
  obtain ts where t:
    "newTransport header_opts ''https://dns.example/dns-query'' TypeHTTP None =
       Inr (T_HTTP ts, headerWarnings (HTTPHeaders header_opts))"
    "\<forall>name. Headers ts name =
       (if headerValues (HTTPHeaders header_opts) name = [] then None
        else Some (headerValues (HTTPHeaders header_opts) name))"
    and p: "headerPair ''X-Test:  value '' = Some (''X-Test'', ''value'')"
      "headerPair ''malformed'' = None"
    by blast
  have w: "headerWarnings (HTTPHeaders header_opts) =
      [''Invalid header format: malformed (expected 'Name: Value')'']"
    by (simp add: l headerWarnings_def)
  have v: "headerValues (HTTPHeaders header_opts) ''X-Test'' = [''value'']"
    "headerValues (HTTPHeaders header_opts) ''malformed'' = []"
    by (simp_all add: l headerValues_Cons p) (simp_all add: headerValues_def)
  from t(2) v have "Headers ts ''X-Test'' = Some [''value'']" "Headers ts ''malformed'' = None"
    by simp_all
  with h t(1) w show ?thesis
    by auto
qed

section \<open>LoadPTRs: the walk over the answers\<close>

lemma addressOf_wantsPTR:
  "addressOf lib rr = Inr (Some ip) \<Longrightarrow> wantsPTR rr"
  "addressOf lib rr = Inr None \<Longrightarrow> \<not> wantsPTR rr"
  "\<not> wantsPTR rr \<Longrightarrow> addressOf lib rr = Inr None"
  by (auto simp: addressOf_def wantsPTR_def split: if_splits RR.splits)


lemma store_sent:
  "store ip resp st = Inr st' \<Longrightarrow> sent st' = sent st \<and> warned st' = warned st"
  by (auto simp: store_def split: option.splits list.splits RR.splits)

text \<open>The state after the exchange, before its result is looked at.\<close>

lemma lookup_eq:
  assumes "ReverseAddr lib ip = Inr qname"
    and "exch (txp st) (SetQuestion (rnd (calls st)) qname TypePTR dns_Msg) = ((resp, err), t')"
  shows "lookup lib rnd exch st ip =
    (case err of
       Some e \<Rightarrow>
         Inr (st\<lparr>txp := t', calls := Suc (calls st),
                 sent := sent st @ [SetQuestion (rnd (calls st)) qname TypePTR dns_Msg],
                 warned := warned st @ [''error resolving PTR record: '' @ e]\<rparr>)
     | None \<Rightarrow>
         store ip resp
           (st\<lparr>txp := t', calls := Suc (calls st),
               sent := sent st @ [SetQuestion (rnd (calls st)) qname TypePTR dns_Msg]\<rparr>))"
  using assms by (simp add: lookup_def Let_def split: option.splits)

lemma lookup_sent:
  assumes "lookup lib rnd exch st ip = Inr st'"
  shows "length (sent st') = Suc (length (sent st))"
proof (cases "ReverseAddr lib ip")
  case (Inl err)
  with assms show ?thesis by (simp add: lookup_def)
next
  case (Inr qname)
  obtain resp err t' where
    x: "exch (txp st) (SetQuestion (rnd (calls st)) qname TypePTR dns_Msg) = ((resp, err), t')"
    by (metis prod.exhaust)
  show ?thesis
  proof (cases err)
    case None
    with assms lookup_eq [where exch = exch and st = st and rnd = rnd, OF Inr x] have
      "store ip resp (st\<lparr>txp := t', calls := Suc (calls st),
         sent := sent st @ [SetQuestion (rnd (calls st)) qname TypePTR dns_Msg]\<rparr>) = Inr st'"
      by simp
    from store_sent [OF this] show ?thesis by simp
  next
    case (Some e)
    with assms lookup_eq [where exch = exch and st = st and rnd = rnd, OF Inr x]
    show ?thesis by auto
  qed
qed

lemma LoadPTRs_rr_skip: "\<not> wantsPTR rr \<Longrightarrow> LoadPTRs_rr lib rnd exch st rr = Inr st"
  by (simp add: LoadPTRs_rr_def addressOf_wantsPTR(3))

lemma LoadPTRs_rr_sent:
  assumes "LoadPTRs_rr lib rnd exch st rr = Inr st'"
  shows "length (sent st') = length (sent st) + (if wantsPTR rr then 1 else 0)"
proof (cases "addressOf lib rr")
  case (Inl f)
  with assms show ?thesis by (simp add: LoadPTRs_rr_def)
next
  case (Inr a)
  show ?thesis
  proof (cases a)
    case None
    with Inr assms addressOf_wantsPTR(2) [of lib rr] show ?thesis
      by (simp add: LoadPTRs_rr_def)
  next
    case (Some ip)
    with Inr assms have "lookup lib rnd exch st ip = Inr st'"
      by (simp add: LoadPTRs_rr_def)
    from lookup_sent [OF this] Inr Some addressOf_wantsPTR(1) [of lib rr ip] show ?thesis
      by simp
  qed
qed

lemma LoadPTRs_answers_sent:
  "LoadPTRs_answers lib rnd exch st rrs = Inr st' \<Longrightarrow>
   length (sent st') = length (sent st) + length (filter wantsPTR rrs)"
proof (induction rrs arbitrary: st)
  case Nil
  then show ?case by simp
next
  case (Cons rr rrs)
  from Cons.prems obtain st1 where
    a: "LoadPTRs_rr lib rnd exch st rr = Inr st1"
    and b: "LoadPTRs_answers lib rnd exch st1 rrs = Inr st'"
    by (auto split: sum.splits)
  from LoadPTRs_rr_sent [OF a] Cons.IH [OF b] show ?case
    by simp
qed

lemma LoadPTRs_replies_sent:
  "LoadPTRs_replies lib rnd exch st replies = Inr st' \<Longrightarrow>
   length (sent st') = length (sent st) + length (addrRecords replies)"
proof (induction replies arbitrary: st)
  case Nil
  then show ?case by (simp add: addrRecords_def)
next
  case (Cons r rs)
  from Cons.prems obtain m st1 where
    r: "r = Some m"
    and a: "LoadPTRs_answers lib rnd exch st (Answer m) = Inr st1"
    and b: "LoadPTRs_replies lib rnd exch st1 rs = Inr st'"
    by (auto split: option.splits sum.splits)
  from LoadPTRs_answers_sent [OF a] Cons.IH [OF b] r show ?case
    by (simp add: addrRecords_def)
qed

lemma LoadPTRs_replies_append:
  "LoadPTRs_replies lib rnd exch st (xs @ ys) =
     (case LoadPTRs_replies lib rnd exch st xs of
        Inl f \<Rightarrow> Inl f
      | Inr st' \<Rightarrow> LoadPTRs_replies lib rnd exch st' ys)"
  by (induction xs arbitrary: st) (auto split: option.splits sum.splits)

lemma LoadPTRs_replies_nil:
  "None \<in> set replies \<Longrightarrow> \<exists>f. LoadPTRs_replies lib rnd exch st replies = Inl f"
  by (induction replies arbitrary: st) (auto split: option.splits sum.splits)

text \<open>With a transport that always fails, a reversible record costs one warning and nothing else.\<close>

lemma LoadPTRs_rr_fails:
  assumes "alwaysFails exch" and "wantsPTR rr" and "reversible lib rr"
  shows "\<exists>st'. LoadPTRs_rr lib rnd exch st rr = Inr st' \<and> cache st' = cache st \<and>
    length (warned st') = Suc (length (warned st))"
proof -
  from assms(3) obtain ip where a: "addressOf lib rr = Inr (Some ip)"
    by (auto simp: reversible_def split: sum.splits option.splits)
  with assms(3) obtain qname where r: "ReverseAddr lib ip = Inr qname"
    by (cases "ReverseAddr lib ip") (auto simp: reversible_def)
  obtain resp err t' where
    x: "exch (txp st) (SetQuestion (rnd (calls st)) qname TypePTR dns_Msg) = ((resp, err), t')"
    by (metis prod.exhaust)
  from assms(1) have "snd (fst (exch (txp st)
      (SetQuestion (rnd (calls st)) qname TypePTR dns_Msg))) \<noteq> None"
    unfolding alwaysFails_def by blast
  with x obtain e where "err = Some e"
    by auto
  with lookup_eq [where exch = exch and st = st and rnd = rnd, OF r x] a show ?thesis
    by (simp add: LoadPTRs_rr_def)
qed

lemma LoadPTRs_answers_fails:
  assumes "alwaysFails exch"
  shows "\<forall>rr\<in>set (filter wantsPTR rrs). reversible lib rr \<Longrightarrow>
    \<exists>st'. LoadPTRs_answers lib rnd exch st rrs = Inr st' \<and> cache st' = cache st \<and>
      length (warned st') = length (warned st) + length (filter wantsPTR rrs)"
proof (induction rrs arbitrary: st)
  case Nil
  then show ?case by simp
next
  case (Cons rr rrs)
  show ?case
  proof (cases "wantsPTR rr")
    case False
    with Cons.IH [of st] Cons.prems show ?thesis
      by (simp add: LoadPTRs_rr_skip)
  next
    case True
    with Cons.prems have "reversible lib rr" by simp
    from LoadPTRs_rr_fails [OF assms True this, of rnd st] obtain st1 where
      s: "LoadPTRs_rr lib rnd exch st rr = Inr st1" "cache st1 = cache st"
      "length (warned st1) = Suc (length (warned st))"
      by blast
    from Cons.IH [of st1] Cons.prems obtain st' where
      "LoadPTRs_answers lib rnd exch st1 rrs = Inr st'" "cache st' = cache st1"
      "length (warned st') = length (warned st1) + length (filter wantsPTR rrs)"
      by auto
    with s True show ?thesis by simp
  qed
qed

lemma LoadPTRs_replies_fails:
  assumes "alwaysFails exch"
  shows "None \<notin> set replies \<Longrightarrow> \<forall>rr\<in>set (addrRecords replies). reversible lib rr \<Longrightarrow>
    \<exists>st'. LoadPTRs_replies lib rnd exch st replies = Inr st' \<and> cache st' = cache st \<and>
      length (warned st') = length (warned st) + length (addrRecords replies)"
proof (induction replies arbitrary: st)
  case Nil
  then show ?case by (simp add: addrRecords_def)
next
  case (Cons r rs)
  from Cons.prems(1) obtain m where r: "r = Some m" by (cases r) auto
  from Cons.prems(2) r have a: "\<forall>rr\<in>set (filter wantsPTR (Answer m)). reversible lib rr"
    and b: "\<forall>rr\<in>set (addrRecords rs). reversible lib rr"
    by (auto simp: addrRecords_def)
  from LoadPTRs_answers_fails [OF assms a, of rnd st] obtain st1 where
    s: "LoadPTRs_answers lib rnd exch st (Answer m) = Inr st1" "cache st1 = cache st"
    "length (warned st1) = length (warned st) + length (filter wantsPTR (Answer m))"
    by blast
  from Cons.IH [OF _ b, of st1] Cons.prems(1) obtain st' where
    "LoadPTRs_replies lib rnd exch st1 rs = Inr st'" "cache st' = cache st1"
    "length (warned st') = length (warned st1) + length (addrRecords rs)"
    by auto
  with s r show ?case
    by (simp add: addrRecords_def)
qed

text \<open>The example record and what the examples' library makes of it.\<close>

lemma example_A_simps:
  "addressOf example_lib example_A = Inr (Some ''192.0.2.1'')"
  "ReverseAddr example_lib ''192.0.2.1'' = Inr ''1.2.0.192.in-addr.arpa.''"
  "wantsPTR example_A"
  "reversible example_lib example_A"
proof -
  show a: "addressOf example_lib example_A = Inr (Some ''192.0.2.1'')"
    by (simp add: addressOf_def example_A_def example_lib_simps example_IP_String_def To4_def)
  show r: "ReverseAddr example_lib ''192.0.2.1'' = Inr ''1.2.0.192.in-addr.arpa.''"
    by (simp add: example_lib_simps example_ReverseAddr_def)
  show "wantsPTR example_A"
    by (simp add: wantsPTR_def example_A_def)
  show "reversible example_lib example_A"
    by (simp add: reversible_def a r)
qed

lemma LoadPTRs_rr_example:
  "LoadPTRs_rr example_lib rnd exch st example_A = lookup example_lib rnd exch st ''192.0.2.1''"
  by (simp add: LoadPTRs_rr_def example_A_simps)

section \<open>LoadPTRs: the claims\<close>

text \<open>
  C7, as amended. When the \<^verbatim>\<open>Exchange\<close> for an address record returns an error,
  \<^verbatim>\<open>LoadPTRs\<close> logs one warning with the error's text, leaves the PTR map as it was
  before the call, and goes on with the remaining records of the reply: the error is not
  passed on. With a transport whose every exchange fails, an entry without nil reply whose
  address records are all reversible makes \<^verbatim>\<open>LoadPTRs\<close> return, with the map it started
  from (the empty map when the entry had none), one warning and one exchange per
  address record.
\<close>

theorem LoadPTRs_exchange_error:
  "(addressOf lib rr = Inr (Some ip) \<and> ReverseAddr lib ip = Inr qname \<and>
    snd (fst (exch (txp st) (SetQuestion (rnd (calls st)) qname TypePTR dns_Msg))) = Some err \<longrightarrow>
    (\<exists>st'. LoadPTRs_rr lib rnd exch st rr = Inr st' \<and> cache st' = cache st \<and>
       warned st' = warned st @ [''error resolving PTR record: '' @ err] \<and>
       LoadPTRs_answers lib rnd exch st (rr # rrs) = LoadPTRs_answers lib rnd exch st' rrs)) \<and>
   (alwaysFails exch \<and> None \<notin> set (Replies e) \<and>
    (\<forall>r\<in>set (addrRecords (Replies e)). reversible lib r) \<longrightarrow>
    (\<exists>st. LoadPTRs lib rnd exch t e =
         Inr (e\<lparr>PTRs := Some (case PTRs e of None \<Rightarrow> Map.empty | Some m \<Rightarrow> m)\<rparr>, st) \<and>
       length (warned st) = length (addrRecords (Replies e)) \<and>
       length (sent st) = length (addrRecords (Replies e))))"
proof (intro conjI impI)
  assume h: "addressOf lib rr = Inr (Some ip) \<and> ReverseAddr lib ip = Inr qname \<and>
    snd (fst (exch (txp st) (SetQuestion (rnd (calls st)) qname TypePTR dns_Msg))) = Some err"
  obtain resp err' t' where
    x: "exch (txp st) (SetQuestion (rnd (calls st)) qname TypePTR dns_Msg) = ((resp, err'), t')"
    by (metis prod.exhaust)
  with h have e: "err' = Some err"
    by simp
  from h have r: "ReverseAddr lib ip = Inr qname"
    by simp
  from lookup_eq [where exch = exch and st = st and rnd = rnd, OF r x] h e
  show "\<exists>st'. LoadPTRs_rr lib rnd exch st rr = Inr st' \<and> cache st' = cache st \<and>
       warned st' = warned st @ [''error resolving PTR record: '' @ err] \<and>
       LoadPTRs_answers lib rnd exch st (rr # rrs) = LoadPTRs_answers lib rnd exch st' rrs"
    by (simp add: LoadPTRs_rr_def)
next
  assume h: "alwaysFails exch \<and> None \<notin> set (Replies e) \<and>
    (\<forall>r\<in>set (addrRecords (Replies e)). reversible lib r)"
  then have f: "alwaysFails exch" and n: "None \<notin> set (Replies e)"
    and v: "\<forall>r\<in>set (addrRecords (Replies e)). reversible lib r"
    by simp_all
  from LoadPTRs_replies_fails [OF f n v, of rnd "start t e"] obtain st where
    s: "LoadPTRs_replies lib rnd exch (start t e) (Replies e) = Inr st"
    "cache st = cache (start t e)"
    "length (warned st) = length (warned (start t e)) + length (addrRecords (Replies e))"
    by blast
  from LoadPTRs_replies_sent [OF s(1)] s
  show "\<exists>st. LoadPTRs lib rnd exch t e =
         Inr (e\<lparr>PTRs := Some (case PTRs e of None \<Rightarrow> Map.empty | Some m \<Rightarrow> m)\<rparr>, st) \<and>
       length (warned st) = length (addrRecords (Replies e)) \<and>
       length (sent st) = length (addrRecords (Replies e))"
    by (simp add: LoadPTRs_def start_def)
qed

text \<open>
  The example of the specification: an entry with one reply that holds one A record, and
  a transport that fails, leave the map empty and return to the caller.
\<close>

theorem LoadPTRs_exchange_error_witness:
  "alwaysFails failing \<and> None \<notin> set (Replies (example_Entry [Some reply_A])) \<and>
   (\<exists>st. LoadPTRs example_lib example_rnd failing () (example_Entry [Some reply_A]) =
        Inr ((example_Entry [Some reply_A])\<lparr>PTRs := Some Map.empty\<rparr>, st) \<and>
      length (warned st) = 1 \<and> length (sent st) = 1)"
proof -
  have f: "alwaysFails failing"
    by (simp add: alwaysFails_def failing_def)
  have n: "None \<notin> set (Replies (example_Entry [Some reply_A]))"
    by (simp add: example_Entry_def)
  have a: "addrRecords (Replies (example_Entry [Some reply_A])) = [example_A]"
    by (simp add: example_Entry_def addrRecords_def reply_A_def example_A_simps)
  have v: "\<forall>r\<in>set (addrRecords (Replies (example_Entry [Some reply_A]))). reversible example_lib r"
    by (simp add: a example_A_simps)
  have p: "PTRs (example_Entry [Some reply_A]) = None"
    by (simp add: example_Entry_def)
  from LoadPTRs_exchange_error [of example_lib example_A "''''" "''''" failing "start () (example_Entry [])"
      example_rnd "''''" "[]" "example_Entry [Some reply_A]" "()"] f n v
  have "\<exists>st. LoadPTRs example_lib example_rnd failing () (example_Entry [Some reply_A]) =
        Inr ((example_Entry [Some reply_A])\<lparr>PTRs := Some Map.empty\<rparr>, st) \<and>
      length (warned st) = 1 \<and> length (sent st) = 1"
    unfolding a p by simp
  with f n show ?thesis
    by blast
qed

text \<open>
  C7 as it is stated fails: the map is left as it was, which need not be without an entry
  for the address. The reply holds the same A record twice; the first exchange is
  answered and the second fails. The failed exchange is logged, and the map holds an entry
  for its address, the one that the first exchange stored.
\<close>

theorem LoadPTRs_exchange_error_counterexample:
  "\<exists>st. LoadPTRs example_lib example_rnd flaky 0 (example_Entry [Some reply_AA]) =
       Inr ((example_Entry [Some reply_AA])\<lparr>PTRs := Some [''192.0.2.1'' \<mapsto> ''host.example.'']\<rparr>, st) \<and>
     warned st = [''error resolving PTR record: i/o timeout''] \<and> txp st = 2"
  by (simp add: LoadPTRs_def start_def example_Entry_def reply_AA_def LoadPTRs_rr_example
      lookup_def example_A_simps flaky_def store_def reply_PTR_def Let_def)

text \<open>
  C8, as amended. \<^verbatim>\<open>LoadPTRs\<close> neither reads nor writes \<^verbatim>\<open>existingRRs\<close>: changing that
  field of the entry changes nothing of what \<^verbatim>\<open>LoadPTRs\<close> does, and the field comes out
  as it went in. When \<^verbatim>\<open>LoadPTRs\<close> returns, it has made one exchange for every answer
  record of type A or AAAA, repeated records included.
\<close>

theorem LoadPTRs_existingRRs_unused:
  "LoadPTRs lib rnd exch t (e\<lparr>existingRRs := x\<rparr>) =
     map_sum id (\<lambda>(e', st). (e'\<lparr>existingRRs := x\<rparr>, st)) (LoadPTRs lib rnd exch t e) \<and>
   (LoadPTRs lib rnd exch t e = Inr (e', st) \<longrightarrow>
      existingRRs e' = existingRRs e \<and> length (sent st) = length (addrRecords (Replies e)))"
proof (rule conjI)
  show "LoadPTRs lib rnd exch t (e\<lparr>existingRRs := x\<rparr>) =
     map_sum id (\<lambda>(e', st). (e'\<lparr>existingRRs := x\<rparr>, st)) (LoadPTRs lib rnd exch t e)"
    by (simp add: LoadPTRs_def start_def split: sum.splits)
next
  show "LoadPTRs lib rnd exch t e = Inr (e', st) \<longrightarrow>
      existingRRs e' = existingRRs e \<and> length (sent st) = length (addrRecords (Replies e))"
  proof (rule impI)
    assume h: "LoadPTRs lib rnd exch t e = Inr (e', st)"
    then have s: "LoadPTRs_replies lib rnd exch (start t e) (Replies e) = Inr st"
      and e': "e' = e\<lparr>PTRs := Some (cache st)\<rparr>"
      by (auto simp: LoadPTRs_def split: sum.splits)
    from LoadPTRs_replies_sent [OF s] e'
    show "existingRRs e' = existingRRs e \<and> length (sent st) = length (addrRecords (Replies e))"
      by (simp add: start_def)
  qed
qed

theorem LoadPTRs_existingRRs_unused_witness:
  "\<exists>e' st. LoadPTRs example_lib example_rnd answering () (example_Entry [Some reply_AA]) =
       Inr (e', st) \<and>
     existingRRs e' = None \<and> length (sent st) = 2"
proof -
  have "\<exists>e' st. LoadPTRs example_lib example_rnd answering () (example_Entry [Some reply_AA]) =
      Inr (e', st)"
    by (simp add: LoadPTRs_def start_def example_Entry_def reply_AA_def LoadPTRs_rr_example
        lookup_def example_A_simps answering_def store_def reply_PTR_def Let_def)
  then obtain e' st where
    r: "LoadPTRs example_lib example_rnd answering () (example_Entry [Some reply_AA]) = Inr (e', st)"
    by blast
  have a: "addrRecords (Replies (example_Entry [Some reply_AA])) = [example_A, example_A]"
    by (simp add: example_Entry_def addrRecords_def reply_AA_def example_A_simps)
  from LoadPTRs_existingRRs_unused [where lib = example_lib and rnd = example_rnd
      and exch = answering and t = "()" and e = "example_Entry [Some reply_AA]"
      and e' = e' and st = st and x = None, THEN conjunct2, THEN mp, OF r]
  have "existingRRs e' = None \<and> length (sent st) = 2"
    unfolding a by (simp add: example_Entry_def)
  with r show ?thesis
    by blast
qed

text \<open>
  C8 as it is stated fails: the entry marks the record as processed in \<^verbatim>\<open>existingRRs\<close>
  and holds it twice, and \<^verbatim>\<open>LoadPTRs\<close> sends the same PTR question twice.
\<close>

theorem LoadPTRs_existingRRs_unused_counterexample:
  "\<exists>e' st. LoadPTRs example_lib example_rnd answering ()
       ((example_Entry [Some reply_AA])
          \<lparr>existingRRs := Some [''example.com. 300 IN A 192.0.2.1'' \<mapsto> True]\<rparr>) = Inr (e', st) \<and>
     map (map Question.Name \<circ> Question) (sent st) =
       [[''1.2.0.192.in-addr.arpa.''], [''1.2.0.192.in-addr.arpa.'']]"
  by (simp add: LoadPTRs_def start_def example_Entry_def reply_AA_def LoadPTRs_rr_example
      lookup_def example_A_simps answering_def store_def reply_PTR_def Let_def SetQuestion_def)

text \<open>
  C9, as amended. An entry with a nil reply never lets \<^verbatim>\<open>LoadPTRs\<close> return: the outer
  loop, on reaching a nil reply, reads its \<^verbatim>\<open>Answer\<close> field and panics with a nil dereference
  instead of skipping it. When the replies before the first nil one are walked without an
  abort, that panic is the outcome of \<^verbatim>\<open>LoadPTRs\<close>; otherwise the outcome is the earlier
  abort. So \<^verbatim>\<open>LoadPTRs\<close> can only return on entries whose replies are all non-nil.
\<close>

theorem LoadPTRs_nil_reply:
  assumes "None \<in> set (Replies e)"
  shows "(\<exists>f. LoadPTRs lib rnd exch t e = Inl f) \<and>
    (\<forall>st rest. LoadPTRs_replies lib rnd exch st (None # rest) = Inl PanicNilDereference) \<and>
    (\<forall>pre post. Replies e = pre @ None # post \<longrightarrow>
       (case LoadPTRs_replies lib rnd exch (start t e) pre of
          Inl f \<Rightarrow> LoadPTRs lib rnd exch t e = Inl f
        | Inr st \<Rightarrow> LoadPTRs lib rnd exch t e = Inl PanicNilDereference))"
proof (intro conjI allI impI)
  from LoadPTRs_replies_nil [OF assms, of lib rnd exch "start t e"]
  show "\<exists>f. LoadPTRs lib rnd exch t e = Inl f"
    by (auto simp: LoadPTRs_def)
next
  fix st :: "'a walk" and rest
  show "LoadPTRs_replies lib rnd exch st (None # rest) = Inl PanicNilDereference"
    by simp
next
  fix pre post
  assume "Replies e = pre @ None # post"
  then show "case LoadPTRs_replies lib rnd exch (start t e) pre of
      Inl f \<Rightarrow> LoadPTRs lib rnd exch t e = Inl f
    | Inr st \<Rightarrow> LoadPTRs lib rnd exch t e = Inl PanicNilDereference"
    by (simp add: LoadPTRs_def LoadPTRs_replies_append split: sum.splits)
qed

theorem LoadPTRs_nil_reply_witness:
  "None \<in> set (Replies (example_Entry [Some reply_A, None])) \<and>
   LoadPTRs example_lib example_rnd failing () (example_Entry [Some reply_A, None]) =
     Inl PanicNilDereference"
proof -
  have n: "None \<in> set (Replies (example_Entry [Some reply_A, None]))"
    by (simp add: example_Entry_def)
  have r: "Replies (example_Entry [Some reply_A, None]) = [Some reply_A] @ None # []"
    by (simp add: example_Entry_def)
  have "\<exists>st. LoadPTRs_replies example_lib example_rnd failing
      (start () (example_Entry [Some reply_A, None])) [Some reply_A] = Inr st"
    by (simp add: reply_A_def LoadPTRs_rr_example lookup_def example_A_simps failing_def Let_def)
  then obtain st where s: "LoadPTRs_replies example_lib example_rnd failing
      (start () (example_Entry [Some reply_A, None])) [Some reply_A] = Inr st"
    by blast
  from LoadPTRs_nil_reply [OF n, of example_lib example_rnd failing "()"] r
  have "case LoadPTRs_replies example_lib example_rnd failing
          (start () (example_Entry [Some reply_A, None])) [Some reply_A] of
      Inl f \<Rightarrow> LoadPTRs example_lib example_rnd failing () (example_Entry [Some reply_A, None]) = Inl f
    | Inr st \<Rightarrow> LoadPTRs example_lib example_rnd failing () (example_Entry [Some reply_A, None]) =
        Inl PanicNilDereference"
    by blast
  with s n show ?thesis
    by simp
qed

text \<open>
  C9 as it is stated fails: the nil reply is not always reached. With an A record in the
  reply before the nil one, a transport whose answer starts with a record of another type
  makes the store of line 83 panic on its type assertion; and an A record without address
  makes \<^verbatim>\<open>dns.ReverseAddr\<close> fail, so that the process exits in \<^verbatim>\<open>log.Fatalf\<close>. In both
  runs the entry holds a nil reply and the outcome is not the nil dereference.
\<close>

theorem LoadPTRs_nil_reply_counterexample:
  "None \<in> set (Replies (example_Entry [Some reply_A, None])) \<and>
   LoadPTRs example_lib example_rnd aliasing () (example_Entry [Some reply_A, None]) =
     Inl PanicTypeAssertion \<and>
   None \<in> set (Replies (example_Entry [Some reply_A_nil, None])) \<and>
   LoadPTRs example_lib example_rnd failing () (example_Entry [Some reply_A_nil, None]) =
     Inl (Fatal ''error reversing PTR record: dns: unrecognized address: <nil>'')"
proof -
  have a: "addressOf example_lib example_A_nil = Inr (Some ''<nil>'')"
    by (simp add: addressOf_def example_A_nil_def example_lib_simps example_IP_String_def
        To4_def TypeA_def)
  have r: "ReverseAddr example_lib ''<nil>'' =
      Inl ''dns: unrecognized address: <nil>''"
    by (simp add: example_lib_simps example_ReverseAddr_def)
  have "LoadPTRs example_lib example_rnd aliasing () (example_Entry [Some reply_A, None]) =
      Inl PanicTypeAssertion"
    by (simp add: LoadPTRs_def start_def example_Entry_def reply_A_def LoadPTRs_rr_example
        lookup_def example_A_simps aliasing_def store_def reply_CNAME_def Let_def)
  moreover
  have "LoadPTRs example_lib example_rnd failing () (example_Entry [Some reply_A_nil, None]) =
      Inl (Fatal ''error reversing PTR record: dns: unrecognized address: <nil>'')"
    by (simp add: LoadPTRs_def start_def example_Entry_def reply_A_nil_def LoadPTRs_rr_def
        lookup_def a r)
  ultimately show ?thesis
    by (simp add: example_Entry_def)
qed



end
